theory Spec2Isabelle
  imports Main
begin

section \<open>The broker of a Jocko cluster\<close>

text \<open>
  A shallow embedding of the request handlers of \<^verbatim>\<open>Broker\<close> (package jocko). Go's
  \<^verbatim>\<open>int16\<close>, \<^verbatim>\<open>int32\<close> and \<^verbatim>\<open>int64\<close> values are integers; the one narrowing
  conversion of the code (\<^verbatim>\<open>int16(len(...))\<close>) has its wrap-around written out. Pointers
  to replicas are keys of the replica registry: a handler that writes through a
  \<^verbatim>\<open>*Replica\<close> stores the changed replica back under its key. A call either returns,
  panics, or never returns.
\<close>

datatype 'a outcome = Returns 'a | Panics | Hangs

fun obind :: "'a outcome \<Rightarrow> ('a \<Rightarrow> 'b outcome) \<Rightarrow> 'b outcome" where
  "obind (Returns x) f = f x"
| "obind Panics f = Panics"
| "obind Hangs f = Hangs"

subsection \<open>Protocol errors\<close>

datatype Error =
    ErrUnknown
  | ErrNone
  | ErrUnknownTopicOrPartition
  | ErrNotLeaderForPartition
  | ErrReplicaNotAvailable
  | ErrTopicAlreadyExists
  | ErrInvalidReplicationFactor
  | ErrNotController

text \<open>
  Modelled from the spec: the code table of package protocol is not among the sources.
  The error taxonomy mirrors the wire protocol's codes, and \<^verbatim>\<open>ErrNone = 0\<close>, which is
  also Go's zero value of an \<^verbatim>\<open>ErrorCode\<close> field nobody assigns.
  \<^verbatim>\<open>ErrUnknown.WithErr(err)\<close> keeps the code of \<^verbatim>\<open>ErrUnknown\<close>.
\<close>

fun Code :: "Error \<Rightarrow> int" where
  "Code ErrUnknown = -1"
| "Code ErrNone = 0"
| "Code ErrUnknownTopicOrPartition = 3"
| "Code ErrNotLeaderForPartition = 6"
| "Code ErrReplicaNotAvailable = 9"
| "Code ErrTopicAlreadyExists = 36"
| "Code ErrInvalidReplicationFactor = 38"
| "Code ErrNotController = 41"

subsection \<open>Metadata records\<close>

text \<open>\<^verbatim>\<open>structs.Partition\<close>, with the fields the broker reads and writes.\<close>

record Partition =
  p_Topic :: string
  p_ID :: int
  p_Partition :: int
  p_Leader :: int
  p_AR :: "int list"
  p_ISR :: "int list"
  p_ControllerEpoch :: int
  p_LeaderEpoch :: int

text \<open>\<^verbatim>\<open>structs.Topic\<close>: the name and the map from partition id to replica set.\<close>

record Topic =
  t_Topic :: string
  t_Partitions :: "int \<rightharpoonup> int list"

text \<open>\<^verbatim>\<open>metadata.Broker\<close>, an entry of the broker lookup.\<close>

record BrokerMeta =
  bm_ID :: int
  bm_BrokerAddr :: string
  bm_RaftAddr :: string

text \<open>The commands \<^verbatim>\<open>raftApply\<close> proposes.\<close>

datatype RaftCmd =
    RegisterTopicRequest Topic
  | DeregisterTopicRequest Topic
  | RegisterPartitionRequest Partition

datatype RaftState = Follower | Candidate | Leader | Shutdown

subsection \<open>The commit log\<close>

text \<open>
  Modelled from the spec: package commitlog is not among the sources. A log is an ordered
  sequence of records; \<open>OldestOffset\<close> is the offset of the first retained record and
  \<open>NewestOffset\<close> the log end offset (exclusive). An append returns the log end offset
  it found and advances it by the number of records of the set; \<open>Truncate\<close> discards
  what lies above its target.
\<close>

type_synonym RecordSet = "string list"

record CommitLog =
  log_oldest :: int
  log_records :: "string list"

definition OldestOffset :: "CommitLog \<Rightarrow> int" where
  "OldestOffset l = log_oldest l"

definition NewestOffset :: "CommitLog \<Rightarrow> int" where
  "NewestOffset l = log_oldest l + int (length (log_records l))"

definition log_append :: "CommitLog \<Rightarrow> RecordSet \<Rightarrow> int \<times> CommitLog" where
  "log_append l rs = (NewestOffset l, l\<lparr>log_records := log_records l @ rs\<rparr>)"

definition log_truncate :: "CommitLog \<Rightarrow> int \<Rightarrow> CommitLog" where
  "log_truncate l target = l\<lparr>log_records := take (nat (target - log_oldest l)) (log_records l)\<rparr>"

subsection \<open>The replicator and the replica\<close>

text \<open>
  Modelled from the spec: the Replicator is not among the sources. It is the follower's
  pull loop from the broker its client is connected to; \<open>rep_running\<close> says whether
  \<^verbatim>\<open>Replicate\<close> has started the loop.
\<close>

record Replicator =
  rep_client :: "BrokerMeta option"
  rep_running :: bool

text \<open>\<^verbatim>\<open>type Replica struct\<close>; a nil \<^verbatim>\<open>Log\<close> or \<^verbatim>\<open>Replicator\<close> is \<open>None\<close>.\<close>

record Replica =
  r_BrokerID :: int
  r_Partition :: Partition
  r_IsLocal :: bool
  r_Log :: "CommitLog option"
  r_Hw :: int
  r_Leo :: int
  r_Replicator :: "Replicator option"

subsection \<open>The world outside the broker\<close>

text \<open>
  What the collaborators of the broker answer: whether Raft commits a command, whether
  the RPC to a peer succeeds, what the random generator draws for a partition, the log
  the disk holds for a partition id (\<open>None\<close> when opening fails), and which log and
  replicator operations fail. The general theorems hold for every world.
\<close>

record World =
  raft_commits :: "RaftCmd \<Rightarrow> bool"
  rpc_fails :: "int \<Rightarrow> bool"
  rand_draw :: "int \<Rightarrow> int"
  disk_log :: "int \<Rightarrow> CommitLog option"
  append_fails :: "string \<times> int \<Rightarrow> bool"
  truncate_fails :: "string \<times> int \<Rightarrow> bool"
  close_fails :: "string \<times> int \<Rightarrow> bool"
  fsm_read_fails :: bool
  now_unix :: int

subsection \<open>The broker\<close>

text \<open>
  The fields of \<^verbatim>\<open>Broker\<close> the handlers use: the configuration, the Raft state and the
  commands proposed so far, the tables of the replicated state machine, the gossip
  members, the broker lookup (in the order \<^verbatim>\<open>Brokers()\<close> lists it) and the replica
  registry.
\<close>

record Broker =
  config_ID :: int
  config_DevMode :: bool
  raft_State :: RaftState
  raft_proposed :: "RaftCmd list"
  fsm_topics :: "string \<rightharpoonup> Topic"
  fsm_partitions :: "string \<times> int \<rightharpoonup> Partition"
  serf_Members :: "string list"
  brokerLookup :: "BrokerMeta list"
  replicaLookup :: "string \<times> int \<rightharpoonup> Replica"

text \<open>
  Modelled from the spec: the replica registry is not among the sources; it maps
  (topic, partition) to the replica handle, and a lookup of an absent key is an error.
\<close>

definition lookup_Replica :: "Broker \<Rightarrow> string \<Rightarrow> int \<Rightarrow> Replica option" where
  "lookup_Replica b topic part = replicaLookup b (topic, part)"

definition AddReplica :: "Broker \<Rightarrow> Replica \<Rightarrow> Broker" where
  "AddReplica b replica =
     b\<lparr>replicaLookup := (replicaLookup b)
        ((p_Topic (r_Partition replica), p_ID (r_Partition replica)) \<mapsto> replica)\<rparr>"

subsection \<open>Offsets\<close>

record OffsetsPartition =
  op_Partition :: int
  op_Timestamp :: int

record OffsetsTopic =
  ot_Topic :: string
  ot_Partitions :: "OffsetsPartition list"

record PartitionResponse =
  pr_Partition :: int
  pr_ErrorCode :: int
  pr_Offsets :: "int list"

record OffsetResponse =
  or_Topic :: string
  or_PartitionResponses :: "PartitionResponse list"

text \<open>
  The inner loop of \<^verbatim>\<open>handleOffsets\<close>. When the lookup fails the loop continues
  without appending the response it prepared. \<^verbatim>\<open>replica.Log\<close> is an interface value:
  calling it while it is nil panics.
\<close>

fun offsetsPartitions ::
  "Broker \<Rightarrow> string \<Rightarrow> PartitionResponse list \<Rightarrow> OffsetsPartition list
     \<Rightarrow> PartitionResponse list outcome" where
  "offsetsPartitions b topic acc [] = Returns acc"
| "offsetsPartitions b topic acc (p # ps) =
     (case lookup_Replica b topic (op_Partition p) of
        None \<Rightarrow> offsetsPartitions b topic acc ps
      | Some replica \<Rightarrow>
          (case r_Log replica of
             None \<Rightarrow> Panics
           | Some l \<Rightarrow>
               (let offset = (if op_Timestamp p = -2 then OldestOffset l else NewestOffset l);
                    pResp = \<lparr>pr_Partition = op_Partition p, pr_ErrorCode = 0,
                             pr_Offsets = [offset]\<rparr>
                in offsetsPartitions b topic (acc @ [pResp]) ps)))"

fun offsetsTopics ::
  "Broker \<Rightarrow> OffsetResponse list \<Rightarrow> OffsetsTopic list \<Rightarrow> OffsetResponse list outcome" where
  "offsetsTopics b acc [] = Returns acc"
| "offsetsTopics b acc (t # ts) =
     obind (offsetsPartitions b (ot_Topic t) [] (ot_Partitions t))
       (\<lambda>prs. offsetsTopics b
          (acc @ [\<lparr>or_Topic = ot_Topic t, or_PartitionResponses = prs\<rparr>]) ts)"

definition handleOffsets :: "Broker \<Rightarrow> OffsetsTopic list \<Rightarrow> OffsetResponse list outcome" where
  "handleOffsets b req_Topics = offsetsTopics b [] req_Topics"

text \<open>
  What \<^verbatim>\<open>handleOffsets\<close> answers for an entry whose replica has an open log: one offset,
  the oldest for the sentinel timestamp \<open>-2\<close> and the newest otherwise. A topic's answer
  lists the entries that have such a log, in the order of the request.
\<close>

definition replicaLog :: "Broker \<Rightarrow> string \<Rightarrow> int \<Rightarrow> CommitLog option" where
  "replicaLog b topic part =
     (case lookup_Replica b topic part of None \<Rightarrow> None | Some replica \<Rightarrow> r_Log replica)"

definition sentinelOffset :: "CommitLog \<Rightarrow> int \<Rightarrow> int" where
  "sentinelOffset l ts = (if ts = -2 then OldestOffset l else NewestOffset l)"

definition offsetAnswer :: "CommitLog \<Rightarrow> OffsetsPartition \<Rightarrow> PartitionResponse" where
  "offsetAnswer l p =
     \<lparr>pr_Partition = op_Partition p, pr_ErrorCode = Code ErrNone,
      pr_Offsets = [sentinelOffset l (op_Timestamp p)]\<rparr>"

definition offsetAnswers ::
  "Broker \<Rightarrow> string \<Rightarrow> OffsetsPartition list \<Rightarrow> PartitionResponse list" where
  "offsetAnswers b topic ps =
     List.map_filter
       (\<lambda>p. map_option (\<lambda>l. offsetAnswer l p) (replicaLog b topic (op_Partition p))) ps"

definition offsetsAnswer :: "Broker \<Rightarrow> OffsetsTopic \<Rightarrow> OffsetResponse" where
  "offsetsAnswer b t =
     \<lparr>or_Topic = ot_Topic t,
      or_PartitionResponses = offsetAnswers b (ot_Topic t) (ot_Partitions t)\<rparr>"

text \<open>Every replica the entries of a topic find has an open log.\<close>

definition logsOpen :: "Broker \<Rightarrow> string \<Rightarrow> OffsetsPartition list \<Rightarrow> bool" where
  "logsOpen b topic ps =
     list_all (\<lambda>p. case lookup_Replica b topic (op_Partition p) of
                      None \<Rightarrow> True
                    | Some replica \<Rightarrow> r_Log replica \<noteq> None) ps"

subsection \<open>The replicated state machine and Raft\<close>

text \<open>
  Modelled from the spec: the state machine and the Raft wrapper are not among the
  sources. \<^verbatim>\<open>GetTopic\<close> answers the topic of that name, if any, and an error flag.
  \<^verbatim>\<open>RegisterTopic\<close> creates the topic if absent, \<^verbatim>\<open>DeregisterTopic\<close> removes
  the topic and all its partition rows, \<^verbatim>\<open>RegisterPartition\<close> upserts the partition
  record. \<^verbatim>\<open>raftApply\<close> proposes a command and waits for the commit: it fails on a
  broker that is not the Raft leader and when Raft does not commit; once it has succeeded
  the local state machine has applied the command.
\<close>

fun GetTopic :: "World \<Rightarrow> Broker \<Rightarrow> string \<Rightarrow> Topic option \<times> bool" where
  "GetTopic w b topic =
     (if fsm_read_fails w then (None, True) else (fsm_topics b topic, False))"

fun fsm_apply :: "Broker \<Rightarrow> RaftCmd \<Rightarrow> Broker" where
  "fsm_apply b (RegisterTopicRequest t) =
     (case fsm_topics b (t_Topic t) of
        None \<Rightarrow> b\<lparr>fsm_topics := (fsm_topics b)(t_Topic t \<mapsto> t)\<rparr>
      | Some _ \<Rightarrow> b)"
| "fsm_apply b (DeregisterTopicRequest t) =
     b\<lparr>fsm_topics := (fsm_topics b)(t_Topic t := None),
       fsm_partitions := (\<lambda>k. if fst k = t_Topic t then None else fsm_partitions b k)\<rparr>"
| "fsm_apply b (RegisterPartitionRequest p) =
     b\<lparr>fsm_partitions := (fsm_partitions b)((p_Topic p, p_ID p) \<mapsto> p)\<rparr>"

text \<open>The flag of the result says whether the error \<^verbatim>\<open>raftApply\<close> returned was nil.\<close>

fun raftApply :: "World \<Rightarrow> Broker \<Rightarrow> RaftCmd \<Rightarrow> Broker \<times> bool" where
  "raftApply w b cmd =
     (let b1 = b\<lparr>raft_proposed := raft_proposed b @ [cmd]\<rparr>
      in if raft_State b = Leader \<and> raft_commits w cmd
         then (fsm_apply b1 cmd, True)
         else (b1, False))"

fun isLeader :: "Broker \<Rightarrow> bool" where
  "isLeader b = (raft_State b = Leader)"

fun isController :: "Broker \<Rightarrow> bool" where
  "isController b = isLeader b"

fun LANMembers :: "Broker \<Rightarrow> string list" where
  "LANMembers b = serf_Members b"

subsection \<open>Replication\<close>

fun contains :: "int list \<Rightarrow> int \<Rightarrow> bool" where
  "contains [] r = False"
| "contains (ri # rs) r = (if ri = r then True else contains rs r)"

record PartitionState =
  ps_Topic :: string
  ps_Partition :: int
  ps_Leader :: int
  ps_ISR :: "int list"
  ps_Replicas :: "int list"
  ps_ZKVersion :: int
  ps_LeaderEpoch :: int

text \<open>
  Modelled from the spec: the broker lookup maps a broker id to the broker's addresses;
  \<^verbatim>\<open>BrokerByID\<close> answers nil for an id it does not hold.
\<close>

fun BrokerByID :: "BrokerMeta list \<Rightarrow> int \<Rightarrow> BrokerMeta option" where
  "BrokerByID [] i = None"
| "BrokerByID (m # ms) i = (if bm_ID m = i then Some m else BrokerByID ms i)"

text \<open>
  The operations of the collaborators that can fail. The key of a replica is the topic
  and id of its partition. \<open>None\<close> is a returned error.
\<close>

fun replicaKey :: "Replica \<Rightarrow> string \<times> int" where
  "replicaKey replica = (p_Topic (r_Partition replica), p_ID (r_Partition replica))"

fun Replicator_Close :: "World \<Rightarrow> string \<times> int \<Rightarrow> Replicator \<Rightarrow> Replicator option" where
  "Replicator_Close w k r = (if close_fails w k then None else Some (r\<lparr>rep_running := False\<rparr>))"

fun Log_Truncate :: "World \<Rightarrow> string \<times> int \<Rightarrow> CommitLog \<Rightarrow> int \<Rightarrow> CommitLog option" where
  "Log_Truncate w k l target = (if truncate_fails w k then None else Some (log_truncate l target))"

fun Log_Append :: "World \<Rightarrow> string \<times> int \<Rightarrow> CommitLog \<Rightarrow> RecordSet \<Rightarrow> (int \<times> CommitLog) option" where
  "Log_Append w k l rs = (if append_fails w k then None else Some (log_append l rs))"

fun commitlog_New :: "World \<Rightarrow> int \<Rightarrow> CommitLog option" where
  "commitlog_New w partitionID = disk_log w partitionID"

fun NewReplicator :: "BrokerMeta option \<Rightarrow> Replicator" where
  "NewReplicator conn = \<lparr>rep_client = conn, rep_running = False\<rparr>"

fun Replicate :: "Replicator \<Rightarrow> Replicator" where
  "Replicate r = r\<lparr>rep_running := True\<rparr>"

text \<open>\<^verbatim>\<open>startReplica\<close>: the replica, with its log opened if it had none, and the error.\<close>

fun startReplica :: "World \<Rightarrow> Broker \<Rightarrow> Replica \<Rightarrow> Replica \<times> Error" where
  "startReplica w b replica =
     (let (topic, err) = GetTopic w b (p_Topic (r_Partition replica))
      in if err then (replica, ErrUnknown)
         else (case topic of
                 None \<Rightarrow> (replica, ErrUnknownTopicOrPartition)
               | Some t \<Rightarrow>
                   (let isReplica =
                          contains (case t_Partitions t (p_ID (r_Partition replica)) of
                                      None \<Rightarrow> [] | Some rs \<Rightarrow> rs) (config_ID b)
                    in if \<not> isReplica then (replica, ErrReplicaNotAvailable)
                       else (case r_Log replica of
                               Some l \<Rightarrow> (replica, ErrNone)
                             | None \<Rightarrow>
                                 (case commitlog_New w (p_ID (r_Partition replica)) of
                                    None \<Rightarrow> (replica, ErrUnknown)
                                  | Some l \<Rightarrow> (replica\<lparr>r_Log := Some l\<rparr>, ErrNone))))))"

text \<open>
  \<^verbatim>\<open>becomeFollower\<close>, with the calls it makes to the replicator and the log, in order:
  \<^verbatim>\<open>Close\<close> on the replicator the replica holds, \<^verbatim>\<open>Truncate\<close> with its target, and
  \<^verbatim>\<open>Replicate\<close> on the new replicator. A call is recorded whether or not it returns an
  error. A replicator that is closed stays the replica's handle until the new one is
  installed; the call on a nil log panics.
\<close>

datatype Call = CloseCall Replicator | TruncateCall int | ReplicateCall Replicator

fun becomeFollowerCalls ::
  "World \<Rightarrow> Broker \<Rightarrow> Replica \<Rightarrow> PartitionState \<Rightarrow> (Replica \<times> Error \<times> Call list) outcome" where
  "becomeFollowerCalls w b replica cmd =
     (let (closed, calls1) =
            (case r_Replicator replica of
               None \<Rightarrow> (Some replica, [])
             | Some old \<Rightarrow>
                 (case Replicator_Close w (replicaKey replica) old of
                    None \<Rightarrow> (None, [CloseCall old])
                  | Some old' \<Rightarrow>
                      (Some (replica\<lparr>r_Replicator := Some old'\<rparr>), [CloseCall old])))
      in case closed of
           None \<Rightarrow> Returns (replica, ErrUnknown, calls1)
         | Some replica1 \<Rightarrow>
             (case r_Log replica1 of
                None \<Rightarrow> Panics
              | Some l \<Rightarrow>
                  (let hw = NewestOffset l;
                       calls2 = calls1 @ [TruncateCall hw]
                   in case Log_Truncate w (replicaKey replica1) l hw of
                        None \<Rightarrow> Returns (replica1, ErrUnknown, calls2)
                      | Some l' \<Rightarrow>
                          (let conn = BrokerByID (brokerLookup b) (ps_Leader cmd);
                               r = NewReplicator conn;
                               (r', calls3) =
                                 (if \<not> config_DevMode b
                                  then (Replicate r, calls2 @ [ReplicateCall r])
                                  else (r, calls2))
                           in Returns (replica1\<lparr>r_Log := Some l', r_Replicator := Some r'\<rparr>,
                                       ErrNone, calls3)))))"

text \<open>What \<^verbatim>\<open>becomeFollower\<close> returns: the replica and the error.\<close>

fun becomeFollower ::
  "World \<Rightarrow> Broker \<Rightarrow> Replica \<Rightarrow> PartitionState \<Rightarrow> (Replica \<times> Error) outcome" where
  "becomeFollower w b replica cmd =
     obind (becomeFollowerCalls w b replica cmd)
       (\<lambda>(replica', err, calls). Returns (replica', err))"

fun becomeLeader :: "World \<Rightarrow> Broker \<Rightarrow> Replica \<Rightarrow> PartitionState \<Rightarrow> Replica \<times> Error" where
  "becomeLeader w b replica cmd =
     (let closed = (case r_Replicator replica of
                      None \<Rightarrow> Some replica
                    | Some old \<Rightarrow>
                        (case Replicator_Close w (replicaKey replica) old of
                           None \<Rightarrow> None
                         | Some old' \<Rightarrow> Some (replica\<lparr>r_Replicator := None\<rparr>)))
      in case closed of
           None \<Rightarrow> (replica, ErrUnknown)
         | Some replica1 \<Rightarrow>
             (replica1\<lparr>r_Partition := (r_Partition replica1)
                 \<lparr>p_Leader := ps_Leader cmd, p_AR := ps_Replicas cmd, p_ISR := ps_ISR cmd,
                  p_LeaderEpoch := ps_ZKVersion cmd\<rparr>\<rparr>, ErrNone))"

subsection \<open>LeaderAndISR\<close>

record LeaderAndISRPartition =
  lp_ErrorCode :: int
  lp_Partition :: int
  lp_Topic :: string

record LeaderAndISRRequest =
  lq_ControllerID :: int
  lq_PartitionStates :: "PartitionState list"

text \<open>\<^verbatim>\<open>handleLeaderAndISR\<close> fills \<^verbatim>\<open>Partitions\<close> and never assigns \<^verbatim>\<open>ErrorCode\<close>.\<close>

record LeaderAndISRResponse =
  lr_ErrorCode :: int
  lr_Partitions :: "LeaderAndISRPartition list"

fun setErr :: "PartitionState \<Rightarrow> Error \<Rightarrow> LeaderAndISRPartition" where
  "setErr p err = \<lparr>lp_ErrorCode = Code err, lp_Partition = ps_Partition p, lp_Topic = ps_Topic p\<rparr>"

fun storeReplica :: "Broker \<Rightarrow> string \<times> int \<Rightarrow> Replica \<Rightarrow> Broker" where
  "storeReplica b k replica = b\<lparr>replicaLookup := (replicaLookup b)(k \<mapsto> replica)\<rparr>"

text \<open>
  One round of the loop of \<^verbatim>\<open>handleLeaderAndISR\<close>. The replica is a pointer held by the
  registry under the key of the lookup, so what \<^verbatim>\<open>startReplica\<close>, \<^verbatim>\<open>becomeLeader\<close>
  and \<^verbatim>\<open>becomeFollower\<close> write to it is stored back under that key.
\<close>

fun leaderAndISRPartition ::
  "World \<Rightarrow> Broker \<Rightarrow> PartitionState \<Rightarrow> (Broker \<times> LeaderAndISRPartition) outcome" where
  "leaderAndISRPartition w b p =
     (let k = (ps_Topic p, ps_Partition p);
          found = lookup_Replica b (ps_Topic p) (ps_Partition p);
          isNew = (found = None);
          replica0 = (case found of
                        Some r \<Rightarrow> r
                      | None \<Rightarrow>
                          \<lparr>r_BrokerID = config_ID b,
                           r_Partition =
                             \<lparr>p_Topic = ps_Topic p, p_ID = ps_Partition p,
                              p_Partition = ps_Partition p, p_Leader = ps_Leader p,
                              p_AR = ps_Replicas p, p_ISR = ps_ISR p,
                              p_ControllerEpoch = ps_ZKVersion p,
                              p_LeaderEpoch = ps_LeaderEpoch p\<rparr>,
                           r_IsLocal = True, r_Log = None, r_Hw = 0, r_Leo = 0,
                           r_Replicator = None\<rparr>);
          b0 = (if isNew then AddReplica b replica0 else b);
          (replica1, err1) = startReplica w b0 replica0;
          b1 = storeReplica b0 k replica1
      in if err1 \<noteq> ErrNone then Returns (b1, setErr p err1)
         else if ps_Leader p = config_ID b \<and>
                 (p_Leader (r_Partition replica1) \<noteq> config_ID b \<or> isNew) then
           (let (replica2, err2) = becomeLeader w b1 replica1 p;
                b2 = storeReplica b1 k replica2
            in if err2 \<noteq> ErrNone then Returns (b2, setErr p err2)
               else Returns (b2, setErr p ErrNone))
         else if contains (ps_Replicas p) (config_ID b) \<and>
                 (\<not> contains (p_AR (r_Partition replica1)) (ps_Leader p) \<or> isNew) then
           obind (becomeFollower w b1 replica1 p)
             (\<lambda>(replica2, err2).
                (let b2 = storeReplica b1 k replica2
                 in if err2 \<noteq> ErrNone then Returns (b2, setErr p err2)
                    else Returns (b2, setErr p ErrNone)))
         else Returns (b1, setErr p ErrNone))"

fun leaderAndISRLoop ::
  "World \<Rightarrow> Broker \<Rightarrow> LeaderAndISRPartition list \<Rightarrow> PartitionState list
     \<Rightarrow> (Broker \<times> LeaderAndISRPartition list) outcome" where
  "leaderAndISRLoop w b acc [] = Returns (b, acc)"
| "leaderAndISRLoop w b acc (p # ps) =
     obind (leaderAndISRPartition w b p)
       (\<lambda>(b', r). leaderAndISRLoop w b' (acc @ [r]) ps)"

fun handleLeaderAndISR ::
  "World \<Rightarrow> Broker \<Rightarrow> LeaderAndISRRequest \<Rightarrow> (Broker \<times> LeaderAndISRResponse) outcome" where
  "handleLeaderAndISR w b req =
     obind (leaderAndISRLoop w b [] (lq_PartitionStates req))
       (\<lambda>(b', parts). Returns (b', \<lparr>lr_ErrorCode = 0, lr_Partitions = parts\<rparr>))"

text \<open>
  The first part of a round of \<^verbatim>\<open>handleLeaderAndISR\<close>, up to the decision between the
  roles: the broker and the replica after \<^verbatim>\<open>startReplica\<close>, the error it returned, and
  whether the replica is new.
\<close>

fun roundStart :: "World \<Rightarrow> Broker \<Rightarrow> PartitionState \<Rightarrow> Broker \<times> Replica \<times> Error \<times> bool" where
  "roundStart w b p =
     (let found = lookup_Replica b (ps_Topic p) (ps_Partition p);
          isNew = (found = None);
          replica0 = (case found of
                        Some r \<Rightarrow> r
                      | None \<Rightarrow>
                          \<lparr>r_BrokerID = config_ID b,
                           r_Partition =
                             \<lparr>p_Topic = ps_Topic p, p_ID = ps_Partition p,
                              p_Partition = ps_Partition p, p_Leader = ps_Leader p,
                              p_AR = ps_Replicas p, p_ISR = ps_ISR p,
                              p_ControllerEpoch = ps_ZKVersion p,
                              p_LeaderEpoch = ps_LeaderEpoch p\<rparr>,
                           r_IsLocal = True, r_Log = None, r_Hw = 0, r_Leo = 0,
                           r_Replicator = None\<rparr>);
          b0 = (if isNew then AddReplica b replica0 else b);
          (replica1, err1) = startReplica w b0 replica0
      in (storeReplica b0 (ps_Topic p, ps_Partition p) replica1, replica1, err1, isNew))"

subsection \<open>Creating and deleting topics\<close>

text \<open>
  The inner loop of \<^verbatim>\<open>buildPartitions\<close>:
  \<^verbatim>\<open>for replica := rand.Int31n(memCount); len(replicas) < int(replicationFactor); replica++\<close>.
  It appends the loop counter itself, which runs over the positions \<open>0 .. memCount - 1\<close>,
  and compares it with the leader's broker id. The loop need not end: \<open>None\<close> is a
  run that never returns.
\<close>

partial_function (option) collectReplicas ::
  "int \<Rightarrow> int \<Rightarrow> int \<Rightarrow> int \<Rightarrow> int list \<Rightarrow> int list option" where
  "collectReplicas memCount leader replicationFactor replica replicas =
     (if int (length replicas) < replicationFactor then
        (let replicas' = (if replica \<noteq> leader then replicas @ [replica] else replicas);
             replica' = (if replica + 1 = memCount then -1 else replica)
         in collectReplicas memCount leader replicationFactor (replica' + 1) replicas')
      else Some replicas)"

declare collectReplicas.simps [code]

text \<open>
  \<^verbatim>\<open>rand.Int31n(n)\<close> panics for \<open>n \<le> 0\<close> and answers a number of \<open>[0, n)\<close> otherwise:
  the draw of the world, reduced into the range. Go's \<^verbatim>\<open>%\<close> truncates towards zero
  and panics on a zero divisor; an index outside the slice panics.
\<close>

fun Int31n :: "World \<Rightarrow> int \<Rightarrow> int \<Rightarrow> int outcome" where
  "Int31n w i n = (if n \<le> 0 then Panics else Returns (rand_draw w i mod n))"

fun go_rem :: "int \<Rightarrow> int \<Rightarrow> int outcome" where
  "go_rem a n = (if n = 0 then Panics else Returns (sgn a * (\<bar>a\<bar> mod \<bar>n\<bar>)))"

function buildPartitionsLoop ::
  "World \<Rightarrow> BrokerMeta list \<Rightarrow> string \<Rightarrow> int \<Rightarrow> int \<Rightarrow> int \<Rightarrow> Partition list
     \<Rightarrow> Partition list outcome" where
  "buildPartitionsLoop w mems topic partitionsCount replicationFactor i partitions =
     (if i < partitionsCount then
        (let memCount = int (length mems)
         in case go_rem i memCount of
              Panics \<Rightarrow> Panics
            | Hangs \<Rightarrow> Hangs
            | Returns pos \<Rightarrow>
                if pos < 0 \<or> memCount \<le> pos then Panics
                else
                  (let leader = bm_ID (mems ! nat pos)
                   in case Int31n w i memCount of
                        Panics \<Rightarrow> Panics
                      | Hangs \<Rightarrow> Hangs
                      | Returns start \<Rightarrow>
                          (case collectReplicas memCount leader replicationFactor start [leader] of
                             None \<Rightarrow> Hangs
                           | Some replicas \<Rightarrow>
                               buildPartitionsLoop w mems topic partitionsCount replicationFactor
                                 (i + 1)
                                 (partitions @
                                  [\<lparr>p_Topic = topic, p_ID = i, p_Partition = i,
                                    p_Leader = leader, p_AR = replicas, p_ISR = replicas,
                                    p_ControllerEpoch = 0, p_LeaderEpoch = 0\<rparr>]))))
      else Returns partitions)"
  by pat_completeness auto
termination
  by (relation "measure (\<lambda>(w, mems, topic, partitionsCount, replicationFactor, i, partitions).
        nat (partitionsCount - i))") auto

declare buildPartitionsLoop.simps [simp del]

fun buildPartitions :: "World \<Rightarrow> Broker \<Rightarrow> string \<Rightarrow> int \<Rightarrow> int \<Rightarrow> Partition list outcome" where
  "buildPartitions w b topic partitionsCount replicationFactor =
     buildPartitionsLoop w (brokerLookup b) topic partitionsCount replicationFactor 0 []"

text \<open>\<^verbatim>\<open>createPartition\<close> for each partition, up to the first error.\<close>

fun createPartitions :: "World \<Rightarrow> Broker \<Rightarrow> Partition list \<Rightarrow> Broker \<times> bool" where
  "createPartitions w b [] = (b, True)"
| "createPartitions w b (p # ps) =
     (let (b1, ok) = raftApply w b (RegisterPartitionRequest p)
      in if ok then createPartitions w b1 ps else (b1, False))"

text \<open>
  The last loop of \<^verbatim>\<open>createTopic\<close>: the request is handled locally by the broker
  itself and sent to every other broker of the lookup; either failure is a panic.
\<close>

fun dispatchLeaderAndISR ::
  "World \<Rightarrow> Broker \<Rightarrow> LeaderAndISRRequest \<Rightarrow> BrokerMeta list \<Rightarrow> Broker outcome" where
  "dispatchLeaderAndISR w b req [] = Returns b"
| "dispatchLeaderAndISR w b req (s # ss) =
     (if bm_ID s = config_ID b then
        obind (handleLeaderAndISR w b req)
          (\<lambda>(b1, resp).
             if Code ErrNone \<noteq> lr_ErrorCode resp then Panics
             else dispatchLeaderAndISR w b1 req ss)
      else if rpc_fails w (bm_ID s) then Panics
      else dispatchLeaderAndISR w b req ss)"

fun createTopic :: "World \<Rightarrow> Broker \<Rightarrow> string \<Rightarrow> int \<Rightarrow> int \<Rightarrow> (Broker \<times> Error) outcome" where
  "createTopic w b topic partitions replicationFactor =
     (let (t, _) = GetTopic w b topic
      in if t \<noteq> None then Returns (b, ErrTopicAlreadyExists)
         else
           obind (buildPartitions w b topic partitions replicationFactor)
             (\<lambda>ps.
                (let tt = \<lparr>t_Topic = topic,
                           t_Partitions =
                             fold (\<lambda>partition m. m(p_ID partition \<mapsto> p_AR partition)) ps Map.empty\<rparr>;
                     (b1, ok1) = raftApply w b (RegisterTopicRequest tt)
                 in if \<not> ok1 then Returns (b1, ErrUnknown)
                    else
                      (let (b2, ok2) = createPartitions w b1 ps
                       in if \<not> ok2 then Returns (b2, ErrUnknown)
                          else
                            (let req =
                                   \<lparr>lq_ControllerID = config_ID b,
                                    lq_PartitionStates =
                                      map (\<lambda>partition.
                                             \<lparr>ps_Topic = p_Topic partition,
                                              ps_Partition = p_ID partition,
                                              ps_Leader = p_Leader partition,
                                              ps_ISR = p_ISR partition,
                                              ps_Replicas = p_AR partition,
                                              ps_ZKVersion = 0, ps_LeaderEpoch = 0\<rparr>) ps\<rparr>
                             in obind (dispatchLeaderAndISR w b2 req (brokerLookup b2))
                                  (\<lambda>b3. Returns (b3, ErrNone)))))))"

record CreateTopicRequest =
  ct_Topic :: string
  ct_NumPartitions :: int
  ct_ReplicationFactor :: int

record TopicErrorCode =
  te_Topic :: string
  te_ErrorCode :: int

text \<open>The conversion \<^verbatim>\<open>int16(n)\<close> keeps the low 16 bits, read as a signed number.\<close>

fun int16 :: "int \<Rightarrow> int" where
  "int16 n = (n + 32768) mod 65536 - 32768"

text \<open>
  One round of the loop of \<^verbatim>\<open>handleCreateTopic\<close>, and the loop; \<open>controller\<close> is the
  flag \<^verbatim>\<open>isController\<close> the handler reads once before the loop.
\<close>

fun createTopicRound ::
  "World \<Rightarrow> Broker \<Rightarrow> bool \<Rightarrow> CreateTopicRequest \<Rightarrow> (Broker \<times> TopicErrorCode) outcome" where
  "createTopicRound w b controller req =
     (if \<not> controller then
        Returns (b, \<lparr>te_Topic = ct_Topic req, te_ErrorCode = Code ErrNotController\<rparr>)
      else if ct_ReplicationFactor req > int16 (int (length (LANMembers b))) then
        Returns (b, \<lparr>te_Topic = ct_Topic req, te_ErrorCode = Code ErrInvalidReplicationFactor\<rparr>)
      else
        obind (createTopic w b (ct_Topic req) (ct_NumPartitions req) (ct_ReplicationFactor req))
          (\<lambda>(b1, err). Returns (b1, \<lparr>te_Topic = ct_Topic req, te_ErrorCode = Code err\<rparr>)))"

fun createTopicsLoop ::
  "World \<Rightarrow> Broker \<Rightarrow> bool \<Rightarrow> TopicErrorCode list \<Rightarrow> CreateTopicRequest list
     \<Rightarrow> (Broker \<times> TopicErrorCode list) outcome" where
  "createTopicsLoop w b controller acc [] = Returns (b, acc)"
| "createTopicsLoop w b controller acc (req # reqs) =
     obind (createTopicRound w b controller req)
       (\<lambda>(b1, code). createTopicsLoop w b1 controller (acc @ [code]) reqs)"

fun handleCreateTopic ::
  "World \<Rightarrow> Broker \<Rightarrow> CreateTopicRequest list \<Rightarrow> (Broker \<times> TopicErrorCode list) outcome" where
  "handleCreateTopic w b reqs = createTopicsLoop w b (isController b) [] reqs"

fun deleteTopicRound :: "World \<Rightarrow> Broker \<Rightarrow> bool \<Rightarrow> string \<Rightarrow> Broker \<times> TopicErrorCode" where
  "deleteTopicRound w b controller topic =
     (if \<not> controller then
        (b, \<lparr>te_Topic = topic, te_ErrorCode = Code ErrNotController\<rparr>)
      else
        (let (b1, ok) = raftApply w b
                          (DeregisterTopicRequest \<lparr>t_Topic = topic, t_Partitions = Map.empty\<rparr>)
         in if \<not> ok then (b1, \<lparr>te_Topic = topic, te_ErrorCode = Code ErrUnknown\<rparr>)
            else (b1, \<lparr>te_Topic = topic, te_ErrorCode = Code ErrNone\<rparr>)))"

fun deleteTopicsLoop ::
  "World \<Rightarrow> Broker \<Rightarrow> bool \<Rightarrow> TopicErrorCode list \<Rightarrow> string list
     \<Rightarrow> Broker \<times> TopicErrorCode list" where
  "deleteTopicsLoop w b controller acc [] = (b, acc)"
| "deleteTopicsLoop w b controller acc (topic # topics) =
     (let (b1, code) = deleteTopicRound w b controller topic
      in deleteTopicsLoop w b1 controller (acc @ [code]) topics)"

fun handleDeleteTopics :: "World \<Rightarrow> Broker \<Rightarrow> string list \<Rightarrow> Broker \<times> TopicErrorCode list" where
  "handleDeleteTopics w b topics = deleteTopicsLoop w b (isController b) [] topics"

subsection \<open>Produce\<close>

record ProduceData =
  pd_Partition :: int
  pd_RecordSet :: RecordSet

record ProduceTopicData =
  td_Topic :: string
  td_Data :: "ProduceData list"

record ProducePartitionResponse =
  ppr_Partition :: int
  ppr_ErrorCode :: int
  ppr_BaseOffset :: int
  ppr_Timestamp :: int

record ProduceResponse =
  prs_Topic :: string
  prs_PartitionResponses :: "ProducePartitionResponse list"

text \<open>
  One round of the inner loop of \<^verbatim>\<open>handleProduce\<close>. The response starts with Go's zero
  values; the error paths that do not assign \<^verbatim>\<open>presp.Partition\<close> leave it 0. The append
  writes to the log the replica points to.
\<close>

fun producePartition ::
  "World \<Rightarrow> Broker \<Rightarrow> string \<Rightarrow> ProduceData \<Rightarrow> (Broker \<times> ProducePartitionResponse) outcome" where
  "producePartition w b topic p =
     (let presp = \<lparr>ppr_Partition = 0, ppr_ErrorCode = 0, ppr_BaseOffset = 0, ppr_Timestamp = 0\<rparr>;
          (t, err) = GetTopic w b topic
      in if err then Returns (b, presp\<lparr>ppr_ErrorCode := Code ErrUnknown\<rparr>)
         else if t = None then
           Returns (b, presp\<lparr>ppr_ErrorCode := Code ErrUnknownTopicOrPartition\<rparr>)
         else
           (case lookup_Replica b topic (pd_Partition p) of
              None \<Rightarrow>
                Returns (b, presp\<lparr>ppr_Partition := pd_Partition p,
                                  ppr_ErrorCode := Code ErrReplicaNotAvailable\<rparr>)
            | Some replica \<Rightarrow>
                (case r_Log replica of
                   None \<Rightarrow> Panics
                 | Some l \<Rightarrow>
                     (case Log_Append w (replicaKey replica) l (pd_RecordSet p) of
                        None \<Rightarrow> Returns (b, presp\<lparr>ppr_ErrorCode := Code ErrUnknown\<rparr>)
                      | Some (offset, l') \<Rightarrow>
                          Returns
                            (storeReplica b (topic, pd_Partition p) (replica\<lparr>r_Log := Some l'\<rparr>),
                             presp\<lparr>ppr_Partition := pd_Partition p, ppr_BaseOffset := offset,
                                   ppr_Timestamp := now_unix w\<rparr>)))))"

fun producePartitions ::
  "World \<Rightarrow> Broker \<Rightarrow> string \<Rightarrow> ProducePartitionResponse list \<Rightarrow> ProduceData list
     \<Rightarrow> (Broker \<times> ProducePartitionResponse list) outcome" where
  "producePartitions w b topic presps [] = Returns (b, presps)"
| "producePartitions w b topic presps (p # ps) =
     obind (producePartition w b topic p)
       (\<lambda>(b1, presp). producePartitions w b1 topic (presps @ [presp]) ps)"

fun produceTopics ::
  "World \<Rightarrow> Broker \<Rightarrow> ProduceResponse list \<Rightarrow> ProduceTopicData list
     \<Rightarrow> (Broker \<times> ProduceResponse list) outcome" where
  "produceTopics w b acc [] = Returns (b, acc)"
| "produceTopics w b acc (td # tds) =
     obind (producePartitions w b (td_Topic td) [] (td_Data td))
       (\<lambda>(b1, presps).
          produceTopics w b1
            (acc @ [\<lparr>prs_Topic = td_Topic td, prs_PartitionResponses = presps\<rparr>]) tds)"

fun handleProduce ::
  "World \<Rightarrow> Broker \<Rightarrow> ProduceTopicData list \<Rightarrow> (Broker \<times> ProduceResponse list) outcome" where
  "handleProduce w b req_TopicData = produceTopics w b [] req_TopicData"

subsection \<open>The request loop\<close>

datatype APIKey =
    ProduceKey | FetchKey | OffsetsKey | MetadataKey | LeaderAndISRKey | StopReplicaKey
  | GroupCoordinatorKey | JoinGroupKey | HeartbeatKey | LeaveGroupKey | SyncGroupKey
  | DescribeGroupsKey | ListGroupsKey | APIVersionsKey | CreateTopicsKey | DeleteTopicsKey

record APIVersion =
  av_APIKey :: APIKey
  av_MinVersion :: int
  av_MaxVersion :: int

definition APIVersions :: "APIVersion list" where
  "APIVersions =
     \<lparr>av_APIKey = ProduceKey, av_MinVersion = 2, av_MaxVersion = 2\<rparr> #
     map (\<lambda>k. \<lparr>av_APIKey = k, av_MinVersion = 0, av_MaxVersion = 0\<rparr>)
       [FetchKey, OffsetsKey, MetadataKey, LeaderAndISRKey, StopReplicaKey,
        GroupCoordinatorKey, JoinGroupKey, HeartbeatKey, LeaveGroupKey, SyncGroupKey,
        DescribeGroupsKey, ListGroupsKey, APIVersionsKey, CreateTopicsKey, DeleteTopicsKey]"

fun handleAPIVersions :: "Broker \<Rightarrow> APIVersion list" where
  "handleAPIVersions b = APIVersions"

text \<open>
  The typed request bodies of the type switch of \<^verbatim>\<open>Run\<close>; \<open>ReqOther\<close> is a body of
  any type the switch has no case for. \<^verbatim>\<open>handleFetch\<close> and \<^verbatim>\<open>handleMetadata\<close> read the
  broker and do not write to it; what they answer plays no part in what is proved here,
  so their requests and responses are type parameters and the two handlers are arguments
  of \<open>Run\<close>.
\<close>

datatype ('fq, 'mq) RequestBody =
    ReqAPIVersions
  | ReqProduce "ProduceTopicData list"
  | ReqFetch 'fq
  | ReqOffsets "OffsetsTopic list"
  | ReqMetadata 'mq
  | ReqCreateTopics "CreateTopicRequest list"
  | ReqDeleteTopics "string list"
  | ReqLeaderAndISR LeaderAndISRRequest
  | ReqOther

datatype ('fr, 'mr) ResponseBody =
    RespAPIVersions "APIVersion list"
  | RespProduce "ProduceResponse list"
  | RespFetch 'fr
  | RespOffsets "OffsetResponse list"
  | RespMetadata 'mr
  | RespCreateTopics "TopicErrorCode list"
  | RespDeleteTopics "TopicErrorCode list"
  | RespLeaderAndISR LeaderAndISRResponse

record RequestHeader =
  h_APIKey :: int
  h_APIVersion :: int
  h_CorrelationID :: int
  h_ClientID :: string

record ('fq, 'mq) Request =
  rq_Conn :: nat
  rq_Header :: RequestHeader
  rq_Request :: "('fq, 'mq) RequestBody"

record ('fr, 'mr) ProtocolResponse =
  res_CorrelationID :: int
  res_Body :: "('fr, 'mr) ResponseBody option"

record ('fr, 'mr) Response =
  rs_Conn :: nat
  rs_Header :: RequestHeader
  rs_Response :: "('fr, 'mr) ProtocolResponse"

text \<open>
  The type switch: the new broker and the new value of the variable \<^verbatim>\<open>resp\<close>, which keeps
  its old value when no case matches.
\<close>

fun dispatch ::
  "World \<Rightarrow> (Broker \<Rightarrow> 'fq \<Rightarrow> 'fr outcome) \<Rightarrow> (Broker \<Rightarrow> 'mq \<Rightarrow> 'mr outcome) \<Rightarrow> Broker
     \<Rightarrow> ('fr, 'mr) ResponseBody option \<Rightarrow> ('fq, 'mq) RequestBody
     \<Rightarrow> (Broker \<times> ('fr, 'mr) ResponseBody option) outcome" where
  "dispatch w hf hm b resp ReqAPIVersions =
     Returns (b, Some (RespAPIVersions (handleAPIVersions b)))"
| "dispatch w hf hm b resp (ReqProduce req) =
     obind (handleProduce w b req) (\<lambda>(b', r). Returns (b', Some (RespProduce r)))"
| "dispatch w hf hm b resp (ReqFetch req) =
     obind (hf b req) (\<lambda>r. Returns (b, Some (RespFetch r)))"
| "dispatch w hf hm b resp (ReqOffsets req) =
     obind (handleOffsets b req) (\<lambda>r. Returns (b, Some (RespOffsets r)))"
| "dispatch w hf hm b resp (ReqMetadata req) =
     obind (hm b req) (\<lambda>r. Returns (b, Some (RespMetadata r)))"
| "dispatch w hf hm b resp (ReqCreateTopics req) =
     obind (handleCreateTopic w b req) (\<lambda>(b', r). Returns (b', Some (RespCreateTopics r)))"
| "dispatch w hf hm b resp (ReqDeleteTopics req) =
     (let (b', r) = handleDeleteTopics w b req in Returns (b', Some (RespDeleteTopics r)))"
| "dispatch w hf hm b resp (ReqLeaderAndISR req) =
     obind (handleLeaderAndISR w b req) (\<lambda>(b', r). Returns (b', Some (RespLeaderAndISR r)))"
| "dispatch w hf hm b resp ReqOther = Returns (b, resp)"

text \<open>
  \<^verbatim>\<open>Run\<close> on the requests it takes from the request channel before the context is
  done: the responses it sends, in order, and how it ends. A handler that panics or never
  returns ends the loop with no response for its request. Every request carries the
  header the server decoded for it.
\<close>

fun Run ::
  "World \<Rightarrow> (Broker \<Rightarrow> 'fq \<Rightarrow> 'fr outcome) \<Rightarrow> (Broker \<Rightarrow> 'mq \<Rightarrow> 'mr outcome) \<Rightarrow> Broker
     \<Rightarrow> ('fr, 'mr) ResponseBody option \<Rightarrow> ('fq, 'mq) Request list
     \<Rightarrow> ('fr, 'mr) Response list \<times> Broker outcome" where
  "Run w hf hm b resp [] = ([], Returns b)"
| "Run w hf hm b resp (request # requestc) =
     (case dispatch w hf hm b resp (rq_Request request) of
        Returns (b', resp') \<Rightarrow>
          (let (responsec, fin) = Run w hf hm b' resp' requestc
           in (\<lparr>rs_Conn = rq_Conn request, rs_Header = rq_Header request,
                rs_Response = \<lparr>res_CorrelationID = h_CorrelationID (rq_Header request),
                                res_Body = resp'\<rparr>\<rparr> # responsec, fin))
      | Panics \<Rightarrow> ([], Panics)
      | Hangs \<Rightarrow> ([], Hangs))"

subsection \<open>Predicates on states and results\<close>

text \<open>
  Two broker states of the same node: the handlers write to the Raft log, the state
  machine and the replica registry and leave the rest of the broker alone.
\<close>

definition sameNode :: "Broker \<Rightarrow> Broker \<Rightarrow> bool" where
  "sameNode b b' \<longleftrightarrow>
     serf_Members b' = serf_Members b \<and> raft_State b' = raft_State b \<and>
     config_ID b' = config_ID b \<and> config_DevMode b' = config_DevMode b \<and>
     brokerLookup b' = brokerLookup b"

text \<open>
  What the follower loop of \<^verbatim>\<open>buildPartitions\<close> adds to the replicas it starts with,
  and what a partition it builds looks like.
\<close>

definition assignedByCode :: "BrokerMeta list \<Rightarrow> string \<Rightarrow> int \<Rightarrow> Partition \<Rightarrow> bool" where
  "assignedByCode mems topic replicationFactor p \<longleftrightarrow>
     p_Topic p = topic \<and> p_Partition p = p_ID p \<and> 0 \<le> p_ID p \<and>
     p_Leader p = bm_ID (mems ! (nat (p_ID p) mod length mems)) \<and>
     p_ISR p = p_AR p \<and>
     hd (p_AR p) = p_Leader p \<and>
     list_all (\<lambda>x. 0 \<le> x \<and> x < int (length mems) \<and> x \<noteq> p_Leader p) (tl (p_AR p)) \<and>
     int (length (p_AR p)) = max 1 replicationFactor"

definition walked :: "int \<Rightarrow> int \<Rightarrow> int \<Rightarrow> int \<Rightarrow> int list \<Rightarrow> int list \<Rightarrow> bool" where
  "walked memCount leader replicationFactor replica replicas out \<longleftrightarrow>
     (\<exists>ext. out = replicas @ ext \<and>
        (0 \<le> replica \<and> replica < memCount \<longrightarrow>
           list_all (\<lambda>x. 0 \<le> x \<and> x < memCount \<and> x \<noteq> leader) ext) \<and>
        int (length out) = max (int (length replicas)) replicationFactor)"

subsection \<open>Example states\<close>

text \<open>
  Broker 1 of a two-broker cluster. Topic \<open>t\<close> has partition 0, led by broker 2 and
  replicated on broker 1, and partition 1, assigned to broker 2 alone. Broker 1 holds a
  replica of partition 0 whose log has three records from offset 0.
\<close>

definition partitionT0 :: Partition where
  "partitionT0 =
     \<lparr>p_Topic = ''t'', p_ID = 0, p_Partition = 0, p_Leader = 2, p_AR = [2, 1],
      p_ISR = [2, 1], p_ControllerEpoch = 0, p_LeaderEpoch = 0\<rparr>"

definition partitionT1 :: Partition where
  "partitionT1 =
     \<lparr>p_Topic = ''t'', p_ID = 1, p_Partition = 1, p_Leader = 2, p_AR = [2],
      p_ISR = [2], p_ControllerEpoch = 0, p_LeaderEpoch = 0\<rparr>"

definition replicaT0 :: Replica where
  "replicaT0 =
     \<lparr>r_BrokerID = 1, r_Partition = partitionT0, r_IsLocal = True,
      r_Log = Some \<lparr>log_oldest = 0, log_records = [''a'', ''b'', ''c'']\<rparr>,
      r_Hw = 0, r_Leo = 0, r_Replicator = None\<rparr>"

definition broker1 :: Broker where
  "broker1 =
     \<lparr>config_ID = 1, config_DevMode = False, raft_State = Follower, raft_proposed = [],
      fsm_topics = [''t'' \<mapsto> \<lparr>t_Topic = ''t'', t_Partitions = [0 \<mapsto> [2, 1], 1 \<mapsto> [2]]\<rparr>],
      fsm_partitions = [(''t'', 0) \<mapsto> partitionT0, (''t'', 1) \<mapsto> partitionT1],
      serf_Members = [''node1'', ''node2''],
      brokerLookup = [\<lparr>bm_ID = 1, bm_BrokerAddr = ''127.0.0.1:9092'', bm_RaftAddr = ''127.0.0.1:9093''\<rparr>,
                      \<lparr>bm_ID = 2, bm_BrokerAddr = ''127.0.0.2:9092'', bm_RaftAddr = ''127.0.0.2:9093''\<rparr>],
      replicaLookup = [(''t'', 0) \<mapsto> replicaT0]\<rparr>"

text \<open>
  A world in which nothing fails: Raft commits, peers answer, the generator draws 0 and
  the disk holds an empty log for every partition.
\<close>

definition calmWorld :: World where
  "calmWorld =
     \<lparr>raft_commits = (\<lambda>_. True), rpc_fails = (\<lambda>_. False), rand_draw = (\<lambda>_. 0),
      disk_log = (\<lambda>_. Some \<lparr>log_oldest = 0, log_records = []\<rparr>),
      append_fails = (\<lambda>_. False), truncate_fails = (\<lambda>_. False),
      close_fails = (\<lambda>_. False), fsm_read_fails = False, now_unix = 1500000000\<rparr>"

text \<open>
  The replica of partition 0 as broker 1 holds it after having led the partition: it
  records broker 1 as leader and a replicator is still running. The command makes
  broker 2 the leader.
\<close>

definition staleReplicaT0 :: Replica where
  "staleReplicaT0 =
     replicaT0\<lparr>r_Partition := partitionT0\<lparr>p_Leader := 1, p_AR := [1], p_ISR := [1]\<rparr>,
               r_Replicator := Some \<lparr>rep_client = None, rep_running = True\<rparr>\<rparr>"

definition followBroker2 :: PartitionState where
  "followBroker2 =
     \<lparr>ps_Topic = ''t'', ps_Partition = 0, ps_Leader = 2, ps_ISR = [2, 1],
      ps_Replicas = [2, 1], ps_ZKVersion = 5, ps_LeaderEpoch = 1\<rparr>"

text \<open>The stale replica after broker 1 has become a follower of broker 2.\<close>

definition followerT0 :: Replica where
  "followerT0 =
     staleReplicaT0
       \<lparr>r_Log := Some \<lparr>log_oldest = 0, log_records = [''a'', ''b'', ''c'']\<rparr>,
        r_Replicator :=
          Some \<lparr>rep_client = Some \<lparr>bm_ID = 2, bm_BrokerAddr = ''127.0.0.2:9092'',
                                  bm_RaftAddr = ''127.0.0.2:9093''\<rparr>,
                rep_running = True\<rparr>\<rparr>"

text \<open>
  Broker 1 holding that stale replica; broker 1 leading partition 0 with broker 2 among
  the assigned replicas; and a partition state whose leader, broker 99, the lookup does
  not hold.
\<close>

definition staleBroker1 :: Broker where
  "staleBroker1 = storeReplica broker1 (''t'', 0) staleReplicaT0"

definition leadingReplicaT0 :: Replica where
  "leadingReplicaT0 =
     replicaT0\<lparr>r_Partition := partitionT0\<lparr>p_Leader := 1, p_AR := [1, 2], p_ISR := [1, 2]\<rparr>\<rparr>"

definition leadingBroker1 :: Broker where
  "leadingBroker1 = storeReplica broker1 (''t'', 0) leadingReplicaT0"

definition followBroker99 :: PartitionState where
  "followBroker99 =
     \<lparr>ps_Topic = ''t'', ps_Partition = 0, ps_Leader = 99, ps_ISR = [99, 1],
      ps_Replicas = [99, 1], ps_ZKVersion = 5, ps_LeaderEpoch = 1\<rparr>"

text \<open>Broker 1 as the controller of the same cluster.\<close>

definition controller1 :: Broker where
  "controller1 = broker1\<lparr>raft_State := Leader\<rparr>"

text \<open>
  The controller sends the states of all partitions of a topic to every broker. This is
  the state of partition 1, the replica broker 1 registers for it before \<^verbatim>\<open>startReplica\<close>
  finds that broker 1 is not among its replicas, and broker 1 afterwards.
\<close>

definition stateT1 :: PartitionState where
  "stateT1 =
     \<lparr>ps_Topic = ''t'', ps_Partition = 1, ps_Leader = 2, ps_ISR = [2],
      ps_Replicas = [2], ps_ZKVersion = 0, ps_LeaderEpoch = 0\<rparr>"

definition unstartedT1 :: Replica where
  "unstartedT1 =
     \<lparr>r_BrokerID = 1, r_Partition = partitionT1, r_IsLocal = True, r_Log = None,
      r_Hw = 0, r_Leo = 0, r_Replicator = None\<rparr>"

definition broker1WithT1 :: Broker where
  "broker1WithT1 = AddReplica broker1 unstartedT1"

text \<open>A world in which the RPC to broker 2 fails.\<close>

definition peerDownWorld :: World where
  "peerDownWorld = calmWorld\<lparr>rpc_fails := (\<lambda>i. i = 2)\<rparr>"

text \<open>
  Three requests on two connections: an APIVersions request, an Offsets request, and a
  request of a type the switch of \<^verbatim>\<open>Run\<close> has no case for. None of them is a Fetch or
  a Metadata request, so the handlers passed for these are never called.
\<close>

definition noHandler :: "Broker \<Rightarrow> unit \<Rightarrow> unit outcome" where
  "noHandler b req = Panics"

definition threeRequests :: "(unit, unit) Request list" where
  "threeRequests =
     [\<lparr>rq_Conn = 1, rq_Header = \<lparr>h_APIKey = 18, h_APIVersion = 0, h_CorrelationID = 7,
                                  h_ClientID = ''c''\<rparr>, rq_Request = ReqAPIVersions\<rparr>,
      \<lparr>rq_Conn = 2, rq_Header = \<lparr>h_APIKey = 2, h_APIVersion = 0, h_CorrelationID = 41,
                                  h_ClientID = ''d''\<rparr>,
       rq_Request = ReqOffsets [\<lparr>ot_Topic = ''t'',
                                 ot_Partitions = [\<lparr>op_Partition = 0, op_Timestamp = -2\<rparr>]\<rparr>]\<rparr>,
      \<lparr>rq_Conn = 1, rq_Header = \<lparr>h_APIKey = 99, h_APIVersion = 0, h_CorrelationID = 8,
                                  h_ClientID = ''c''\<rparr>, rq_Request = ReqOther\<rparr>]"

section \<open>Properties\<close>

subsection \<open>Offsets\<close>

lemma offsetsPartitions_open:
  "logsOpen b topic ps \<Longrightarrow>
   offsetsPartitions b topic acc ps = Returns (acc @ offsetAnswers b topic ps)"
proof (induction ps arbitrary: acc)
  case Nil
  show ?case by (simp add: offsetAnswers_def map_filter_simps)
next
  case (Cons p ps)
  from Cons.prems have rest: "logsOpen b topic ps"
    by (simp add: logsOpen_def)
  show ?case
  proof (cases "lookup_Replica b topic (op_Partition p)")
    case None
    then show ?thesis
      using Cons.IH [OF rest] by (simp add: offsetAnswers_def map_filter_simps replicaLog_def)
  next
    case (Some replica)
    with Cons.prems obtain l where l: "r_Log replica = Some l"
      by (auto simp: logsOpen_def)
    show ?thesis
      using Some l Cons.IH [OF rest]
      by (simp add: offsetAnswers_def map_filter_simps replicaLog_def offsetAnswer_def
          sentinelOffset_def)
  qed
qed

lemma offsetsPartitions_Returns:
  "offsetsPartitions b topic acc ps = Returns out \<Longrightarrow> logsOpen b topic ps"
proof (induction ps arbitrary: acc)
  case Nil
  show ?case by (simp add: logsOpen_def)
next
  case (Cons p ps)
  show ?case
  proof (cases "lookup_Replica b topic (op_Partition p)")
    case None
    with Cons show ?thesis
      by (simp add: logsOpen_def)
  next
    case (Some replica)
    with Cons.prems obtain l where l: "r_Log replica = Some l"
      by (cases "r_Log replica") auto
    with Some Cons show ?thesis
      by (simp add: logsOpen_def)
  qed
qed

lemma offsetsTopics_open:
  "list_all (\<lambda>t. logsOpen b (ot_Topic t) (ot_Partitions t)) ts \<Longrightarrow>
   offsetsTopics b acc ts = Returns (acc @ map (offsetsAnswer b) ts)"
  by (induction ts arbitrary: acc) (simp_all add: offsetsPartitions_open offsetsAnswer_def)

lemma offsetsTopics_Returns:
  "offsetsTopics b acc ts = Returns out \<Longrightarrow>
   list_all (\<lambda>t. logsOpen b (ot_Topic t) (ot_Partitions t)) ts"
proof (induction ts arbitrary: acc)
  case Nil
  show ?case by simp
next
  case (Cons t ts)
  from Cons.prems obtain prs where
    prs: "offsetsPartitions b (ot_Topic t) [] (ot_Partitions t) = Returns prs"
    by (cases "offsetsPartitions b (ot_Topic t) [] (ot_Partitions t)") auto
  with Cons show ?case
    by (auto dest: offsetsPartitions_Returns)
qed

lemma offsetAnswers_member:
  "r \<in> set (offsetAnswers b topic ps) \<longleftrightarrow>
   (\<exists>p l. p \<in> set ps \<and> replicaLog b topic (op_Partition p) = Some l \<and> r = offsetAnswer l p)"
  by (induction ps) (auto simp: offsetAnswers_def split: option.splits)

text \<open>
  C9. In \<^verbatim>\<open>handleOffsets\<close>, when the replica lookup fails for a requested partition, the
  response of that topic holds no partition response for it: the topic's response lists
  only the entries whose replica was found, each with the code of \<^verbatim>\<open>ErrNone\<close>, so the
  missing partition is left out instead of being reported with an error code.
\<close>

theorem handleOffsets_omits_missing_replica:
  assumes "handleOffsets b topics = Returns out"
    and "i < length topics"
    and "lookup_Replica b (ot_Topic (topics ! i)) part = None"
  shows "length out = length topics \<and>
         or_Topic (out ! i) = ot_Topic (topics ! i) \<and>
         (\<forall>r \<in> set (or_PartitionResponses (out ! i)).
            pr_Partition r \<noteq> part \<and> pr_ErrorCode r = Code ErrNone)"
proof -
  from assms(1) have "offsetsTopics b [] topics = Returns out"
    by (simp add: handleOffsets_def)
  with offsetsTopics_open [OF offsetsTopics_Returns, of b "[]" topics out]
  have out: "out = map (offsetsAnswer b) topics"
    by simp
  have "pr_Partition r \<noteq> part \<and> pr_ErrorCode r = Code ErrNone"
    if "r \<in> set (or_PartitionResponses (offsetsAnswer b (topics ! i)))" for r
  proof -
    from that obtain p l where
      l: "replicaLog b (ot_Topic (topics ! i)) (op_Partition p) = Some l"
      and r: "r = offsetAnswer l p"
      by (auto simp: offsetsAnswer_def offsetAnswers_member)
    from l assms(3) have "op_Partition p \<noteq> part"
      by (auto simp: replicaLog_def)
    with r show ?thesis
      by (simp add: offsetAnswer_def)
  qed
  with out assms(2) show ?thesis
    by (simp add: offsetsAnswer_def)
qed

theorem handleOffsets_omits_missing_replica_witness:
  "handleOffsets broker1
     [\<lparr>ot_Topic = ''t'',
       ot_Partitions = [\<lparr>op_Partition = 7, op_Timestamp = -1\<rparr>,
                        \<lparr>op_Partition = 0, op_Timestamp = -1\<rparr>]\<rparr>] =
     Returns [\<lparr>or_Topic = ''t'',
               or_PartitionResponses =
                 [\<lparr>pr_Partition = 0, pr_ErrorCode = 0, pr_Offsets = [3]\<rparr>]\<rparr>] \<and>
   lookup_Replica broker1 ''t'' 7 = None \<and>
   7 \<notin> pr_Partition ` set [\<lparr>pr_Partition = 0, pr_ErrorCode = 0, pr_Offsets = [3::int]\<rparr>]"
proof -
  let ?req = "[\<lparr>ot_Topic = ''t'',
       ot_Partitions = [\<lparr>op_Partition = 7, op_Timestamp = -1\<rparr>,
                        \<lparr>op_Partition = 0, op_Timestamp = -1\<rparr>]\<rparr>]"
  let ?out = "[\<lparr>or_Topic = ''t'',
               or_PartitionResponses =
                 [\<lparr>pr_Partition = 0, pr_ErrorCode = 0, pr_Offsets = [3]\<rparr>]\<rparr>]"
  have run: "handleOffsets broker1 ?req = Returns ?out"
    by (simp add: handleOffsets_def lookup_Replica_def broker1_def replicaT0_def
        NewestOffset_def OldestOffset_def)
  have miss: "lookup_Replica broker1 (ot_Topic (?req ! 0)) 7 = None"
    by (simp add: lookup_Replica_def broker1_def)
  from handleOffsets_omits_missing_replica [OF run _ miss] run miss
  show ?thesis
    by simp
qed

subsection \<open>Becoming a follower or the leader\<close>

lemma log_truncate_NewestOffset: "log_truncate l (NewestOffset l) = l"
  by (simp add: log_truncate_def NewestOffset_def)

lemma BrokerByID_Some: "BrokerByID ms i = Some m \<Longrightarrow> bm_ID m = i \<and> m \<in> set ms"
  by (induction ms) (auto split: if_splits)

lemma startReplica_frame:
  "startReplica w b replica = (replica', err) \<Longrightarrow>
   replica' = replica\<lparr>r_Log := r_Log replica'\<rparr>"
  by (auto simp: Let_def split: if_splits option.splits prod.splits)

lemma becomeFollower_returns:
  "r_Log replica = Some l \<Longrightarrow>
   \<exists>replica' err. becomeFollower w b replica cmd = Returns (replica', err)"
  by (cases "r_Replicator replica") (auto simp: Let_def split: if_splits)

lemma startReplica_opens_log:
  "startReplica w b replica = (replica', ErrNone) \<Longrightarrow> r_Log replica' \<noteq> None"
  by (auto simp: Let_def split: if_splits option.splits prod.splits)

text \<open>
  \<^verbatim>\<open>becomeFollower\<close> returns \<^verbatim>\<open>ErrNone\<close> exactly when closing the running
  replicator (if there is one) and truncating the log both succeed; the replica then
  holds its log truncated to the log's \<open>NewestOffset\<close> and a new replicator, running if
  and only if dev mode is not set.
\<close>

lemma becomeFollower_ErrNone:
  "becomeFollower w b replica cmd = Returns (replica', ErrNone) \<longleftrightarrow>
     (r_Replicator replica = None \<or> \<not> close_fails w (replicaKey replica)) \<and>
     \<not> truncate_fails w (replicaKey replica) \<and>
     (case r_Log replica of
        None \<Rightarrow> False
      | Some l \<Rightarrow>
          replica' = replica
            \<lparr>r_Log := Some (log_truncate l (NewestOffset l)),
             r_Replicator :=
               Some \<lparr>rep_client = BrokerByID (brokerLookup b) (ps_Leader cmd),
                     rep_running = (\<not> config_DevMode b)\<rparr>\<rparr>)"
  by (cases "r_Replicator replica"; cases "r_Log replica")
     (auto simp: Let_def split: if_splits)

lemma becomeFollower_ErrNone_example:
  "becomeFollower calmWorld broker1 staleReplicaT0 followBroker2 =
     Returns (staleReplicaT0
       \<lparr>r_Log := Some \<lparr>log_oldest = 0, log_records = [''a'', ''b'', ''c'']\<rparr>,
        r_Replicator :=
          Some \<lparr>rep_client = Some \<lparr>bm_ID = 2, bm_BrokerAddr = ''127.0.0.2:9092'',
                                  bm_RaftAddr = ''127.0.0.2:9093''\<rparr>,
                rep_running = True\<rparr>\<rparr>, ErrNone)"
  using becomeFollower_ErrNone [of calmWorld broker1 staleReplicaT0 followBroker2
      "staleReplicaT0
       \<lparr>r_Log := Some \<lparr>log_oldest = 0, log_records = [''a'', ''b'', ''c'']\<rparr>,
        r_Replicator :=
          Some \<lparr>rep_client = Some \<lparr>bm_ID = 2, bm_BrokerAddr = ''127.0.0.2:9092'',
                                  bm_RaftAddr = ''127.0.0.2:9093''\<rparr>,
                rep_running = True\<rparr>\<rparr>"]
  by (simp add: calmWorld_def broker1_def staleReplicaT0_def replicaT0_def partitionT0_def
      followBroker2_def log_truncate_def NewestOffset_def Let_def)

text \<open>
  In \<^verbatim>\<open>handleLeaderAndISR\<close> the log is open when \<^verbatim>\<open>becomeFollower\<close> runs, and the
  partition's response carries the error \<^verbatim>\<open>becomeFollower\<close> returned.
\<close>

lemma leaderAndISRPartition_follower:
  assumes "lookup_Replica b (ps_Topic p) (ps_Partition p) = Some replica"
    and "startReplica w b replica = (replica1, ErrNone)"
    and "ps_Leader p \<noteq> config_ID b \<or> p_Leader (r_Partition replica1) = config_ID b"
    and "contains (ps_Replicas p) (config_ID b)"
    and "\<not> contains (p_AR (r_Partition replica1)) (ps_Leader p)"
  shows "\<exists>replica2 err.
           becomeFollower w (storeReplica b (ps_Topic p, ps_Partition p) replica1) replica1 p =
             Returns (replica2, err) \<and>
           leaderAndISRPartition w b p =
             Returns (storeReplica (storeReplica b (ps_Topic p, ps_Partition p) replica1)
                        (ps_Topic p, ps_Partition p) replica2, setErr p err)"
proof -
  from startReplica_opens_log [OF assms(2)] obtain l where l: "r_Log replica1 = Some l"
    by auto
  let ?b1 = "storeReplica b (ps_Topic p, ps_Partition p) replica1"
  from becomeFollower_returns [OF l] obtain replica2 err where
    bf: "becomeFollower w ?b1 replica1 p = Returns (replica2, err)"
    by blast
  have "leaderAndISRPartition w b p =
          Returns (storeReplica ?b1 (ps_Topic p, ps_Partition p) replica2, setErr p err)"
    using assms bf
    by (cases "ps_Leader p = config_ID b")
       (simp_all add: Let_def del: startReplica.simps becomeFollower.simps becomeLeader.simps
          storeReplica.simps setErr.simps)
  with bf show ?thesis by blast
qed

text \<open>
  What \<^verbatim>\<open>becomeFollower\<close> returns and which calls it makes, for a replica with an open
  log: it stops at the first call that fails.
\<close>

lemma becomeFollowerCalls_outcome:
  assumes "r_Log replica = Some l"
  shows "becomeFollowerCalls w b replica cmd =
    (if r_Replicator replica \<noteq> None \<and> close_fails w (replicaKey replica) then
       Returns (replica, ErrUnknown,
                case r_Replicator replica of None \<Rightarrow> [] | Some old \<Rightarrow> [CloseCall old])
     else if truncate_fails w (replicaKey replica) then
       Returns (replica\<lparr>r_Replicator := map_option (\<lambda>old. old\<lparr>rep_running := False\<rparr>)
                                            (r_Replicator replica)\<rparr>, ErrUnknown,
                (case r_Replicator replica of None \<Rightarrow> [] | Some old \<Rightarrow> [CloseCall old]) @
                [TruncateCall (NewestOffset l)])
     else
       Returns (replica
                  \<lparr>r_Log := Some (log_truncate l (NewestOffset l)),
                   r_Replicator :=
                     Some \<lparr>rep_client = BrokerByID (brokerLookup b) (ps_Leader cmd),
                           rep_running = (\<not> config_DevMode b)\<rparr>\<rparr>, ErrNone,
                (case r_Replicator replica of None \<Rightarrow> [] | Some old \<Rightarrow> [CloseCall old]) @
                [TruncateCall (NewestOffset l)] @
                (if config_DevMode b then []
                 else [ReplicateCall \<lparr>rep_client = BrokerByID (brokerLookup b) (ps_Leader cmd),
                                       rep_running = False\<rparr>])))"
  using assms
  by (cases "r_Replicator replica") (auto simp: Let_def split: if_splits)

text \<open>
  A round of \<^verbatim>\<open>handleLeaderAndISR\<close>, from its first part on: the choice between the
  roles and the response.
\<close>

lemma leaderAndISRPartition_roundStart:
  assumes "roundStart w b p = (b1, replica1, err1, isNew)"
  shows "leaderAndISRPartition w b p =
    (if err1 \<noteq> ErrNone then Returns (b1, setErr p err1)
     else if ps_Leader p = config_ID b \<and>
             (p_Leader (r_Partition replica1) \<noteq> config_ID b \<or> isNew) then
       (let (replica2, err2) = becomeLeader w b1 replica1 p
        in Returns (storeReplica b1 (ps_Topic p, ps_Partition p) replica2, setErr p err2))
     else if contains (ps_Replicas p) (config_ID b) \<and>
             (\<not> contains (p_AR (r_Partition replica1)) (ps_Leader p) \<or> isNew) then
       obind (becomeFollower w b1 replica1 p)
         (\<lambda>(replica2, err2).
            Returns (storeReplica b1 (ps_Topic p, ps_Partition p) replica2, setErr p err2))
     else Returns (b1, setErr p ErrNone))"
proof -
  define found where "found = lookup_Replica b (ps_Topic p) (ps_Partition p)"
  define replica0 where
    "replica0 =
       (case found of
          Some r \<Rightarrow> r
        | None \<Rightarrow>
            \<lparr>r_BrokerID = config_ID b,
             r_Partition =
               \<lparr>p_Topic = ps_Topic p, p_ID = ps_Partition p,
                p_Partition = ps_Partition p, p_Leader = ps_Leader p,
                p_AR = ps_Replicas p, p_ISR = ps_ISR p,
                p_ControllerEpoch = ps_ZKVersion p,
                p_LeaderEpoch = ps_LeaderEpoch p\<rparr>,
             r_IsLocal = True, r_Log = None, r_Hw = 0, r_Leo = 0,
             r_Replicator = None\<rparr>)"
  define b0 where "b0 = (if found = None then AddReplica b replica0 else b)"
  obtain r1 e1 where s: "startReplica w b0 replica0 = (r1, e1)"
    by (cases "startReplica w b0 replica0")
  define b1' where "b1' = storeReplica b0 (ps_Topic p, ps_Partition p) r1"
  have rs: "roundStart w b p = (b1', r1, e1, found = None)"
    unfolding roundStart.simps Let_def found_def [symmetric] replica0_def [symmetric]
      b0_def [symmetric] s prod.case b1'_def [symmetric]
    by (rule refl)
  with assms have eqs: "b1 = b1'" "replica1 = r1" "err1 = e1" "isNew = (found = None)"
    by simp_all
  obtain replica2 err2 where l: "becomeLeader w b1' r1 p = (replica2, err2)"
    by (cases "becomeLeader w b1' r1 p")
  have eq: "leaderAndISRPartition w b p =
    (if e1 \<noteq> ErrNone then Returns (b1', setErr p e1)
     else if ps_Leader p = config_ID b \<and>
             (p_Leader (r_Partition r1) \<noteq> config_ID b \<or> found = None) then
       (if err2 \<noteq> ErrNone
        then Returns (storeReplica b1' (ps_Topic p, ps_Partition p) replica2, setErr p err2)
        else Returns (storeReplica b1' (ps_Topic p, ps_Partition p) replica2, setErr p ErrNone))
     else if contains (ps_Replicas p) (config_ID b) \<and>
             (\<not> contains (p_AR (r_Partition r1)) (ps_Leader p) \<or> found = None) then
       obind (becomeFollower w b1' r1 p)
         (\<lambda>(replica2, err2).
            (let b2 = storeReplica b1' (ps_Topic p, ps_Partition p) replica2
             in if err2 \<noteq> ErrNone then Returns (b2, setErr p err2)
                else Returns (b2, setErr p ErrNone)))
     else Returns (b1', setErr p ErrNone))"
    unfolding leaderAndISRPartition.simps Let_def found_def [symmetric]
      replica0_def [symmetric] b0_def [symmetric] s prod.case b1'_def [symmetric] l
    by (rule refl)
  have lam: "(\<lambda>(replica2, err2).
            (let b2 = storeReplica b1' (ps_Topic p, ps_Partition p) replica2
             in if err2 \<noteq> ErrNone then Returns (b2, setErr p err2)
                else Returns (b2, setErr p ErrNone))) =
        (\<lambda>(replica2, err2).
            Returns (storeReplica b1' (ps_Topic p, ps_Partition p) replica2, setErr p err2))"
    by (auto simp: Let_def fun_eq_iff simp del: storeReplica.simps setErr.simps)
  have lead: "(if err2 \<noteq> ErrNone
        then Returns (storeReplica b1' (ps_Topic p, ps_Partition p) replica2, setErr p err2)
        else Returns (storeReplica b1' (ps_Topic p, ps_Partition p) replica2, setErr p ErrNone)) =
       (let (replica2, err2) = becomeLeader w b1' r1 p
        in Returns (storeReplica b1' (ps_Topic p, ps_Partition p) replica2, setErr p err2))"
    unfolding l by (simp del: storeReplica.simps setErr.simps)
  show ?thesis
    unfolding eqs eq lam lead by (rule refl)
qed


lemma roundStart_facts:
  assumes "roundStart w b p = (b1, replica1, err1, isNew)"
  shows "brokerLookup b1 = brokerLookup b \<and> config_DevMode b1 = config_DevMode b \<and>
         config_ID b1 = config_ID b \<and> (err1 = ErrNone \<longrightarrow> r_Log replica1 \<noteq> None)"
proof -
  define found where "found = lookup_Replica b (ps_Topic p) (ps_Partition p)"
  define replica0 where
    "replica0 =
       (case found of
          Some r \<Rightarrow> r
        | None \<Rightarrow>
            \<lparr>r_BrokerID = config_ID b,
             r_Partition =
               \<lparr>p_Topic = ps_Topic p, p_ID = ps_Partition p,
                p_Partition = ps_Partition p, p_Leader = ps_Leader p,
                p_AR = ps_Replicas p, p_ISR = ps_ISR p,
                p_ControllerEpoch = ps_ZKVersion p,
                p_LeaderEpoch = ps_LeaderEpoch p\<rparr>,
             r_IsLocal = True, r_Log = None, r_Hw = 0, r_Leo = 0,
             r_Replicator = None\<rparr>)"
  define b0 where "b0 = (if found = None then AddReplica b replica0 else b)"
  obtain r1 e1 where s: "startReplica w b0 replica0 = (r1, e1)"
    by (cases "startReplica w b0 replica0")
  have rs: "roundStart w b p =
              (storeReplica b0 (ps_Topic p, ps_Partition p) r1, r1, e1, found = None)"
    unfolding roundStart.simps Let_def found_def [symmetric] replica0_def [symmetric]
      b0_def [symmetric] s prod.case
    by (rule refl)
  with assms have eqs: "b1 = storeReplica b0 (ps_Topic p, ps_Partition p) r1"
    "replica1 = r1" "err1 = e1"
    by simp_all
  have "r_Log r1 \<noteq> None" if "e1 = ErrNone"
    using s that startReplica_opens_log [of w b0 replica0 r1] by simp
  then show ?thesis
    unfolding eqs by (simp add: b0_def AddReplica_def)
qed

text \<open>
  C3, as the code has it. \<^verbatim>\<open>handleLeaderAndISR\<close> makes a replica a follower when
  \<^verbatim>\<open>startReplica\<close> has succeeded, the partition state does not make this broker the
  leader, this broker is among the replicas of the partition state, and the leader of the
  partition state is not among the replicas the replica records or the replica is new.
  Then the round calls \<^verbatim>\<open>becomeFollower\<close>, whose error is the error of the
  partition's response. That error is \<^verbatim>\<open>ErrNone\<close> exactly when closing the running
  replicator (if there is one) and truncating the log both succeed, and then
  \<^verbatim>\<open>becomeFollower\<close> has closed the replicator the replica held, truncated the log to
  its \<open>NewestOffset\<close>, and installed a new replicator whose client is the broker the
  lookup holds for the leader of the partition state, started if and only if dev mode is
  not set. A broker the lookup holds for that leader has the leader's id. When a call
  fails the error is \<^verbatim>\<open>ErrUnknown\<close> and no further call is made.
\<close>

theorem follower_transition:
  assumes "roundStart w b p = (b1, replica1, ErrNone, isNew)"
    and "\<not> (ps_Leader p = config_ID b \<and>
            (p_Leader (r_Partition replica1) \<noteq> config_ID b \<or> isNew))"
    and "contains (ps_Replicas p) (config_ID b)"
    and "\<not> contains (p_AR (r_Partition replica1)) (ps_Leader p) \<or> isNew"
  shows "\<exists>l replica2 err calls.
           r_Log replica1 = Some l \<and>
           becomeFollowerCalls w b1 replica1 p = Returns (replica2, err, calls) \<and>
           leaderAndISRPartition w b p =
             Returns (storeReplica b1 (ps_Topic p, ps_Partition p) replica2, setErr p err) \<and>
           (err = ErrNone \<longleftrightarrow>
              (r_Replicator replica1 = None \<or> \<not> close_fails w (replicaKey replica1)) \<and>
              \<not> truncate_fails w (replicaKey replica1)) \<and>
           (err = ErrNone \<longrightarrow>
              calls =
                (case r_Replicator replica1 of None \<Rightarrow> [] | Some old \<Rightarrow> [CloseCall old]) @
                [TruncateCall (NewestOffset l)] @
                (if config_DevMode b then []
                 else [ReplicateCall \<lparr>rep_client = BrokerByID (brokerLookup b) (ps_Leader p),
                                       rep_running = False\<rparr>]) \<and>
              replica2 = replica1
                \<lparr>r_Log := Some (log_truncate l (NewestOffset l)),
                 r_Replicator :=
                   Some \<lparr>rep_client = BrokerByID (brokerLookup b) (ps_Leader p),
                         rep_running = (\<not> config_DevMode b)\<rparr>\<rparr>) \<and>
           (err \<noteq> ErrNone \<longrightarrow>
              err = ErrUnknown \<and>
              (if r_Replicator replica1 \<noteq> None \<and> close_fails w (replicaKey replica1)
               then replica2 = replica1 \<and>
                    calls = (case r_Replicator replica1 of
                               None \<Rightarrow> [] | Some old \<Rightarrow> [CloseCall old])
               else replica2 = replica1
                      \<lparr>r_Replicator := map_option (\<lambda>old. old\<lparr>rep_running := False\<rparr>)
                                         (r_Replicator replica1)\<rparr> \<and>
                    calls = (case r_Replicator replica1 of
                               None \<Rightarrow> [] | Some old \<Rightarrow> [CloseCall old]) @
                            [TruncateCall (NewestOffset l)])) \<and>
           (\<forall>m. BrokerByID (brokerLookup b) (ps_Leader p) = Some m \<longrightarrow> bm_ID m = ps_Leader p)"
proof -
  from roundStart_facts [OF assms(1)] obtain l where
    l: "r_Log replica1 = Some l"
    and same: "brokerLookup b1 = brokerLookup b" "config_DevMode b1 = config_DevMode b"
    by auto
  note out = becomeFollowerCalls_outcome [OF l, of w b1 p, unfolded same]
  from out obtain replica2 err calls where
    c: "becomeFollowerCalls w b1 replica1 p = Returns (replica2, err, calls)"
    by (auto split: if_splits)
  have f: "becomeFollower w b1 replica1 p = Returns (replica2, err)"
    using c by (simp del: becomeFollowerCalls.simps)
  have h: "leaderAndISRPartition w b p =
             Returns (storeReplica b1 (ps_Topic p, ps_Partition p) replica2, setErr p err)"
    unfolding leaderAndISRPartition_roundStart [OF assms(1)] f
    by (simp only: assms(2) assms(3) assms(4) if_False if_True simp_thms obind.simps prod.case)
  have ok: "err = ErrNone \<longleftrightarrow>
              (r_Replicator replica1 = None \<or> \<not> close_fails w (replicaKey replica1)) \<and>
              \<not> truncate_fails w (replicaKey replica1)"
    using c out by (auto split: if_splits)
  have eff: "calls =
                (case r_Replicator replica1 of None \<Rightarrow> [] | Some old \<Rightarrow> [CloseCall old]) @
                [TruncateCall (NewestOffset l)] @
                (if config_DevMode b then []
                 else [ReplicateCall \<lparr>rep_client = BrokerByID (brokerLookup b) (ps_Leader p),
                                       rep_running = False\<rparr>]) \<and>
              replica2 = replica1
                \<lparr>r_Log := Some (log_truncate l (NewestOffset l)),
                 r_Replicator :=
                   Some \<lparr>rep_client = BrokerByID (brokerLookup b) (ps_Leader p),
                         rep_running = (\<not> config_DevMode b)\<rparr>\<rparr>"
    if "err = ErrNone"
    using that c out by (auto split: if_splits)
  have bad: "err = ErrUnknown \<and>
              (if r_Replicator replica1 \<noteq> None \<and> close_fails w (replicaKey replica1)
               then replica2 = replica1 \<and>
                    calls = (case r_Replicator replica1 of
                               None \<Rightarrow> [] | Some old \<Rightarrow> [CloseCall old])
               else replica2 = replica1
                      \<lparr>r_Replicator := map_option (\<lambda>old. old\<lparr>rep_running := False\<rparr>)
                                         (r_Replicator replica1)\<rparr> \<and>
                    calls = (case r_Replicator replica1 of
                               None \<Rightarrow> [] | Some old \<Rightarrow> [CloseCall old]) @
                            [TruncateCall (NewestOffset l)])"
    if "err \<noteq> ErrNone"
    using that c out by (auto split: if_splits)
  have "bm_ID m = ps_Leader p" if "BrokerByID (brokerLookup b) (ps_Leader p) = Some m" for m
    using BrokerByID_Some [OF that] by simp
  with l c h ok eff bad show ?thesis
    by blast
qed

theorem follower_transition_witness:
  "roundStart calmWorld staleBroker1 followBroker2 =
     (staleBroker1, staleReplicaT0, ErrNone, False) \<and>
   becomeFollowerCalls calmWorld staleBroker1 staleReplicaT0 followBroker2 =
     Returns (followerT0, ErrNone,
              [CloseCall \<lparr>rep_client = None, rep_running = True\<rparr>,
               TruncateCall 3,
               ReplicateCall \<lparr>rep_client = Some \<lparr>bm_ID = 2, bm_BrokerAddr = ''127.0.0.2:9092'',
                                                   bm_RaftAddr = ''127.0.0.2:9093''\<rparr>,
                              rep_running = False\<rparr>]) \<and>
   leaderAndISRPartition calmWorld staleBroker1 followBroker2 =
     Returns (storeReplica staleBroker1 (''t'', 0) followerT0,
              \<lparr>lp_ErrorCode = 0, lp_Partition = 0, lp_Topic = ''t''\<rparr>)"
proof -
  have rs: "roundStart calmWorld staleBroker1 followBroker2 =
              (staleBroker1, staleReplicaT0, ErrNone, False)"
    by (simp add: staleBroker1_def staleReplicaT0_def replicaT0_def partitionT0_def
        followBroker2_def calmWorld_def broker1_def lookup_Replica_def Let_def)
  have a2: "\<not> (ps_Leader followBroker2 = config_ID staleBroker1 \<and>
            (p_Leader (r_Partition staleReplicaT0) \<noteq> config_ID staleBroker1 \<or> False))"
    by (simp add: followBroker2_def staleBroker1_def broker1_def)
  have a3: "contains (ps_Replicas followBroker2) (config_ID staleBroker1)"
    by (simp add: followBroker2_def staleBroker1_def broker1_def)
  have a4: "\<not> contains (p_AR (r_Partition staleReplicaT0)) (ps_Leader followBroker2) \<or> False"
    by (simp add: followBroker2_def staleReplicaT0_def)
  have c: "becomeFollowerCalls calmWorld staleBroker1 staleReplicaT0 followBroker2 =
     Returns (followerT0, ErrNone,
              [CloseCall \<lparr>rep_client = None, rep_running = True\<rparr>,
               TruncateCall 3,
               ReplicateCall \<lparr>rep_client = Some \<lparr>bm_ID = 2, bm_BrokerAddr = ''127.0.0.2:9092'',
                                                   bm_RaftAddr = ''127.0.0.2:9093''\<rparr>,
                              rep_running = False\<rparr>])"
    by (simp add: followerT0_def staleBroker1_def staleReplicaT0_def replicaT0_def
        partitionT0_def followBroker2_def calmWorld_def broker1_def log_truncate_def
        NewestOffset_def Let_def)
  from follower_transition [OF rs a2 a3 a4] rs c show ?thesis
    by (auto simp: followBroker2_def simp del: leaderAndISRPartition.simps
        becomeFollowerCalls.simps storeReplica.simps roundStart.simps)
qed

text \<open>
  The same for a replica that is new: a broker 1 with an empty registry registers the
  replica, opens its log and follows broker 2; there is no replicator to close.
\<close>

lemma follower_transition_new_replica:
  "roundStart calmWorld (broker1\<lparr>replicaLookup := Map.empty\<rparr>) followBroker2 =
     (storeReplica (broker1\<lparr>replicaLookup := Map.empty\<rparr>) (''t'', 0)
        (replicaT0\<lparr>r_Partition := partitionT0\<lparr>p_ControllerEpoch := 5, p_LeaderEpoch := 1\<rparr>,
                   r_Log := Some \<lparr>log_oldest = 0, log_records = []\<rparr>\<rparr>),
      replicaT0\<lparr>r_Partition := partitionT0\<lparr>p_ControllerEpoch := 5, p_LeaderEpoch := 1\<rparr>,
                r_Log := Some \<lparr>log_oldest = 0, log_records = []\<rparr>\<rparr>,
      ErrNone, True) \<and>
   becomeFollowerCalls calmWorld
     (storeReplica (broker1\<lparr>replicaLookup := Map.empty\<rparr>) (''t'', 0)
        (replicaT0\<lparr>r_Partition := partitionT0\<lparr>p_ControllerEpoch := 5, p_LeaderEpoch := 1\<rparr>,
                   r_Log := Some \<lparr>log_oldest = 0, log_records = []\<rparr>\<rparr>))
     (replicaT0\<lparr>r_Partition := partitionT0\<lparr>p_ControllerEpoch := 5, p_LeaderEpoch := 1\<rparr>,
                r_Log := Some \<lparr>log_oldest = 0, log_records = []\<rparr>\<rparr>)
     followBroker2 =
     Returns
       (replicaT0\<lparr>r_Partition := partitionT0\<lparr>p_ControllerEpoch := 5, p_LeaderEpoch := 1\<rparr>,
                  r_Log := Some \<lparr>log_oldest = 0, log_records = []\<rparr>,
                  r_Replicator :=
                    Some \<lparr>rep_client = Some \<lparr>bm_ID = 2, bm_BrokerAddr = ''127.0.0.2:9092'',
                                            bm_RaftAddr = ''127.0.0.2:9093''\<rparr>,
                          rep_running = True\<rparr>\<rparr>,
        ErrNone,
        [TruncateCall 0,
         ReplicateCall \<lparr>rep_client = Some \<lparr>bm_ID = 2, bm_BrokerAddr = ''127.0.0.2:9092'',
                                             bm_RaftAddr = ''127.0.0.2:9093''\<rparr>,
                        rep_running = False\<rparr>])"
  by (simp add: replicaT0_def partitionT0_def followBroker2_def calmWorld_def broker1_def
      lookup_Replica_def AddReplica_def log_truncate_def NewestOffset_def Let_def)

text \<open>
  A partition state that names another broker as leader does not always make the replica
  a follower. Broker 1 leads partition 0 and records broker 2 among its replicas; told
  that broker 2 leads, it answers \<^verbatim>\<open>ErrNone\<close> and stays as it was, with no replicator.
  And when the lookup does not hold the leader, here broker 99, the new replicator is
  started with a client connected to no broker.
\<close>

theorem follower_transition_counterexample:
  "handleLeaderAndISR calmWorld leadingBroker1
     \<lparr>lq_ControllerID = 2, lq_PartitionStates = [followBroker2]\<rparr> =
     Returns (leadingBroker1,
       \<lparr>lr_ErrorCode = 0,
        lr_Partitions = [\<lparr>lp_ErrorCode = 0, lp_Partition = 0, lp_Topic = ''t''\<rparr>]\<rparr>) \<and>
   config_ID leadingBroker1 = 1 \<and>
   ps_Leader followBroker2 = 2 \<and>
   contains (ps_Replicas followBroker2) 1 \<and>
   lookup_Replica leadingBroker1 ''t'' 0 = Some leadingReplicaT0 \<and>
   p_Leader (r_Partition leadingReplicaT0) = 1 \<and>
   r_Replicator leadingReplicaT0 = None \<and>
   BrokerByID (brokerLookup staleBroker1) (ps_Leader followBroker99) = None \<and>
   leaderAndISRPartition calmWorld staleBroker1 followBroker99 =
     Returns (storeReplica staleBroker1 (''t'', 0)
                (staleReplicaT0
                   \<lparr>r_Replicator := Some \<lparr>rep_client = None, rep_running = True\<rparr>\<rparr>),
              \<lparr>lp_ErrorCode = 0, lp_Partition = 0, lp_Topic = ''t''\<rparr>)"
  by (simp add: leadingBroker1_def leadingReplicaT0_def staleBroker1_def staleReplicaT0_def
      replicaT0_def partitionT0_def followBroker2_def followBroker99_def calmWorld_def
      broker1_def lookup_Replica_def log_truncate_def NewestOffset_def Let_def)


text \<open>
  C10. \<^verbatim>\<open>becomeFollower\<close> changes nothing of a replica but its log and its replicator
  handle: the partition metadata (leader, AR, ISR, leader epoch) stays as it was, whatever
  leader the partition state names. \<^verbatim>\<open>becomeLeader\<close>, when it succeeds, sets these four
  fields from the partition state (the leader epoch from its \<^verbatim>\<open>ZKVersion\<close>).
\<close>

theorem becomeFollower_keeps_metadata:
  "(becomeFollower w b replica cmd = Returns (replica', err) \<longrightarrow>
      r_Partition replica' = r_Partition replica \<and>
      replica' = replica\<lparr>r_Log := r_Log replica', r_Replicator := r_Replicator replica'\<rparr>) \<and>
   (becomeLeader w b replica cmd = (replica'', ErrNone) \<longrightarrow>
      r_Partition replica'' = (r_Partition replica)
        \<lparr>p_Leader := ps_Leader cmd, p_AR := ps_Replicas cmd, p_ISR := ps_ISR cmd,
         p_LeaderEpoch := ps_ZKVersion cmd\<rparr>)"
  by (cases "r_Replicator replica"; cases "r_Log replica")
     (auto simp: Let_def split: if_splits)

theorem becomeFollower_keeps_metadata_witness:
  "becomeFollower calmWorld broker1 staleReplicaT0 followBroker2 =
     Returns (staleReplicaT0
       \<lparr>r_Log := Some \<lparr>log_oldest = 0, log_records = [''a'', ''b'', ''c'']\<rparr>,
        r_Replicator :=
          Some \<lparr>rep_client = Some \<lparr>bm_ID = 2, bm_BrokerAddr = ''127.0.0.2:9092'',
                                  bm_RaftAddr = ''127.0.0.2:9093''\<rparr>,
                rep_running = True\<rparr>\<rparr>, ErrNone) \<and>
   ps_Leader followBroker2 = 2 \<and>
   p_Leader (r_Partition staleReplicaT0) = 1 \<and>
   r_Partition (staleReplicaT0
       \<lparr>r_Log := Some \<lparr>log_oldest = 0, log_records = [''a'', ''b'', ''c'']\<rparr>,
        r_Replicator :=
          Some \<lparr>rep_client = Some \<lparr>bm_ID = 2, bm_BrokerAddr = ''127.0.0.2:9092'',
                                  bm_RaftAddr = ''127.0.0.2:9093''\<rparr>,
                rep_running = True\<rparr>\<rparr>) = r_Partition staleReplicaT0 \<and>
   becomeLeader calmWorld broker1 staleReplicaT0 followBroker2 =
     (staleReplicaT0
        \<lparr>r_Partition := (r_Partition staleReplicaT0)
           \<lparr>p_Leader := 2, p_AR := [2, 1], p_ISR := [2, 1], p_LeaderEpoch := 5\<rparr>,
         r_Replicator := None\<rparr>, ErrNone)"
proof -
  let ?r = "staleReplicaT0
       \<lparr>r_Log := Some \<lparr>log_oldest = 0, log_records = [''a'', ''b'', ''c'']\<rparr>,
        r_Replicator :=
          Some \<lparr>rep_client = Some \<lparr>bm_ID = 2, bm_BrokerAddr = ''127.0.0.2:9092'',
                                  bm_RaftAddr = ''127.0.0.2:9093''\<rparr>,
                rep_running = True\<rparr>\<rparr>"
  let ?l = "staleReplicaT0
        \<lparr>r_Partition := (r_Partition staleReplicaT0)
           \<lparr>p_Leader := 2, p_AR := [2, 1], p_ISR := [2, 1], p_LeaderEpoch := 5\<rparr>,
         r_Replicator := None\<rparr>"
  have f: "becomeFollower calmWorld broker1 staleReplicaT0 followBroker2 = Returns (?r, ErrNone)"
    by (simp add: calmWorld_def broker1_def staleReplicaT0_def replicaT0_def partitionT0_def
        followBroker2_def log_truncate_def NewestOffset_def Let_def)
  have l: "becomeLeader calmWorld broker1 staleReplicaT0 followBroker2 = (?l, ErrNone)"
    by (simp add: calmWorld_def staleReplicaT0_def replicaT0_def partitionT0_def
        followBroker2_def)
  from becomeFollower_keeps_metadata
         [of calmWorld broker1 staleReplicaT0 followBroker2 ?r ErrNone ?l] f l
  show ?thesis
    by (simp add: staleReplicaT0_def followBroker2_def)
qed

subsection \<open>What the handlers leave alone\<close>

lemma obind_eq_Returns:
  "obind m f = Returns y \<longleftrightarrow> (\<exists>x. m = Returns x \<and> f x = Returns y)"
  by (cases m) auto

lemma sameNode_refl [simp]: "sameNode b b"
  by (simp add: sameNode_def)

lemma sameNode_trans: "sameNode a b \<Longrightarrow> sameNode b c \<Longrightarrow> sameNode a c"
  by (simp add: sameNode_def)

lemma raftApply_sameNode: "raftApply w b cmd = (b', ok) \<Longrightarrow> sameNode b b'"
  by (cases cmd) (auto simp: Let_def sameNode_def split: if_splits option.splits)

lemma raftApply_replicaLookup:
  "raftApply w b cmd = (b', ok) \<Longrightarrow> replicaLookup b' = replicaLookup b"
  by (cases cmd) (auto simp: Let_def split: if_splits option.splits)

lemma createPartitions_sameNode: "createPartitions w b ps = (b', ok) \<Longrightarrow> sameNode b b'"
proof (induction ps arbitrary: b)
  case Nil
  then show ?case by simp
next
  case (Cons p ps)
  obtain b1 ok1 where r: "raftApply w b (RegisterPartitionRequest p) = (b1, ok1)"
    by (cases "raftApply w b (RegisterPartitionRequest p)")
  show ?case
  proof (cases ok1)
    case True
    with Cons.prems r have "createPartitions w b1 ps = (b', ok)"
      by (simp del: raftApply.simps)
    from raftApply_sameNode [OF r] Cons.IH [OF this] show ?thesis
      by (rule sameNode_trans)
  next
    case False
    with Cons.prems r have "b' = b1" by (simp del: raftApply.simps)
    with raftApply_sameNode [OF r] show ?thesis by simp
  qed
qed

text \<open>
  A round of \<^verbatim>\<open>handleLeaderAndISR\<close> always returns, and it writes one entry of the
  registry: \<^verbatim>\<open>becomeFollower\<close> runs only after \<^verbatim>\<open>startReplica\<close> has opened the log.
  The handler never assigns the \<^verbatim>\<open>ErrorCode\<close> of its response.
\<close>

lemma leaderAndISRPartition_returns:
  "\<exists>b0 replica err.
     (b0 = b \<or> (\<exists>replica0. b0 = AddReplica b replica0)) \<and>
     leaderAndISRPartition w b p =
       Returns (storeReplica b0 (ps_Topic p, ps_Partition p) replica, setErr p err)"
proof -
  define found where "found = lookup_Replica b (ps_Topic p) (ps_Partition p)"
  define replica0 where
    "replica0 =
       (case found of
          Some r \<Rightarrow> r
        | None \<Rightarrow>
            \<lparr>r_BrokerID = config_ID b,
             r_Partition =
               \<lparr>p_Topic = ps_Topic p, p_ID = ps_Partition p,
                p_Partition = ps_Partition p, p_Leader = ps_Leader p,
                p_AR = ps_Replicas p, p_ISR = ps_ISR p,
                p_ControllerEpoch = ps_ZKVersion p,
                p_LeaderEpoch = ps_LeaderEpoch p\<rparr>,
             r_IsLocal = True, r_Log = None, r_Hw = 0, r_Leo = 0,
             r_Replicator = None\<rparr>)"
  define b0 where "b0 = (if found = None then AddReplica b replica0 else b)"
  define k where "k = (ps_Topic p, ps_Partition p)"
  obtain replica1 err1 where s: "startReplica w b0 replica0 = (replica1, err1)"
    by (cases "startReplica w b0 replica0")
  define b1 where "b1 = storeReplica b0 k replica1"
  obtain replica2 err2 where l: "becomeLeader w b1 replica1 p = (replica2, err2)"
    by (cases "becomeLeader w b1 replica1 p")
  have eq: "leaderAndISRPartition w b p =
    (if err1 \<noteq> ErrNone then Returns (b1, setErr p err1)
     else if ps_Leader p = config_ID b \<and>
             (p_Leader (r_Partition replica1) \<noteq> config_ID b \<or> found = None) then
       (if err2 \<noteq> ErrNone
        then Returns (storeReplica b1 k replica2, setErr p err2)
        else Returns (storeReplica b1 k replica2, setErr p ErrNone))
     else if contains (ps_Replicas p) (config_ID b) \<and>
             (\<not> contains (p_AR (r_Partition replica1)) (ps_Leader p) \<or> found = None) then
       obind (becomeFollower w b1 replica1 p)
         (\<lambda>(replica2, err2).
            (let b2 = storeReplica b1 k replica2
             in if err2 \<noteq> ErrNone then Returns (b2, setErr p err2)
                else Returns (b2, setErr p ErrNone)))
     else Returns (b1, setErr p ErrNone))"
    unfolding leaderAndISRPartition.simps Let_def found_def [symmetric]
      replica0_def [symmetric] b0_def [symmetric] k_def [symmetric] s prod.case
      b1_def [symmetric] l
    by (rule refl)
  have b0: "b0 = b \<or> (\<exists>replica0. b0 = AddReplica b replica0)"
    by (auto simp: b0_def)
  have twice: "storeReplica b1 k r = storeReplica b0 k r" for r
    by (simp add: b1_def)
  have "\<exists>replica err. leaderAndISRPartition w b p = Returns (storeReplica b0 k replica, setErr p err)"
  proof (cases "err1 = ErrNone")
    case False
    with eq show ?thesis
      unfolding b1_def by (simp del: setErr.simps storeReplica.simps) blast
  next
    case True
    with s obtain l where "r_Log replica1 = Some l"
      using startReplica_opens_log [of w b0 replica0 replica1] by auto
    from becomeFollower_returns [OF this] obtain replica3 err3 where
      f: "becomeFollower w b1 replica1 p = Returns (replica3, err3)"
      by blast
    have "\<exists>replica err. (if err2 \<noteq> ErrNone
        then Returns (storeReplica b1 k replica2, setErr p err2)
        else Returns (storeReplica b1 k replica2, setErr p ErrNone)) =
        Returns (storeReplica b0 k replica, setErr p err)"
      unfolding twice by (cases "err2 = ErrNone") (simp_all del: setErr.simps storeReplica.simps, blast+)
    moreover have "\<exists>replica err. obind (becomeFollower w b1 replica1 p)
         (\<lambda>(replica2, err2).
            (let b2 = storeReplica b1 k replica2
             in if err2 \<noteq> ErrNone then Returns (b2, setErr p err2)
                else Returns (b2, setErr p ErrNone))) =
        Returns (storeReplica b0 k replica, setErr p err)"
      unfolding f twice Let_def
      by (cases "err3 = ErrNone") (simp_all del: setErr.simps storeReplica.simps, blast+)
    moreover have "\<exists>replica err. Returns (b1, setErr p ErrNone) =
        Returns (storeReplica b0 k replica, setErr p err)"
      unfolding b1_def by blast
    ultimately show ?thesis
      unfolding eq using True by (simp del: setErr.simps storeReplica.simps becomeFollower.simps)
  qed
  with b0 show ?thesis unfolding k_def by blast
qed

lemma leaderAndISRLoop_returns:
  "\<exists>b' parts. leaderAndISRLoop w b acc ps = Returns (b', parts) \<and>
     length parts = length acc + length ps"
proof (induction ps arbitrary: b acc)
  case Nil
  show ?case by simp
next
  case (Cons p ps)
  from leaderAndISRPartition_returns [of b w p] obtain b1 r where
    "leaderAndISRPartition w b p = Returns (b1, r)" by blast
  with Cons [of b1 "acc @ [r]"] show ?case
    by (auto simp del: leaderAndISRPartition.simps)
qed

lemma handleLeaderAndISR_returns:
  "\<exists>b' parts. handleLeaderAndISR w b req =
       Returns (b', \<lparr>lr_ErrorCode = Code ErrNone, lr_Partitions = parts\<rparr>) \<and>
     length parts = length (lq_PartitionStates req)"
  using leaderAndISRLoop_returns [of w b "[]" "lq_PartitionStates req"]
  by (auto simp del: leaderAndISRLoop.simps)

lemma leaderAndISRPartition_sameNode:
  "leaderAndISRPartition w b p = Returns (b', r) \<Longrightarrow> sameNode b b'"
  using leaderAndISRPartition_returns [of b w p]
  by (auto simp: sameNode_def AddReplica_def simp del: leaderAndISRPartition.simps)

lemma leaderAndISRLoop_sameNode:
  "leaderAndISRLoop w b acc ps = Returns (b', rs) \<Longrightarrow> sameNode b b'"
proof (induction ps arbitrary: b acc)
  case Nil
  then show ?case by simp
next
  case (Cons p ps)
  from Cons.prems obtain b1 r where
    s: "leaderAndISRPartition w b p = Returns (b1, r)"
    and l: "leaderAndISRLoop w b1 (acc @ [r]) ps = Returns (b', rs)"
    by (auto simp: obind_eq_Returns simp del: leaderAndISRPartition.simps)
  from leaderAndISRPartition_sameNode [OF s] Cons.IH [OF l] show ?case
    by (rule sameNode_trans)
qed

lemma handleLeaderAndISR_sameNode:
  "handleLeaderAndISR w b req = Returns (b', resp) \<Longrightarrow> sameNode b b'"
  by (auto simp: obind_eq_Returns dest: leaderAndISRLoop_sameNode)

lemma dispatchLeaderAndISR_sameNode:
  "dispatchLeaderAndISR w b req ss = Returns b' \<Longrightarrow> sameNode b b'"
proof (induction ss arbitrary: b)
  case Nil
  then show ?case by simp
next
  case (Cons s ss)
  show ?case
  proof (cases "bm_ID s = config_ID b")
    case True
    with Cons.prems obtain b1 resp where
      h: "handleLeaderAndISR w b req = Returns (b1, resp)"
      and d: "dispatchLeaderAndISR w b1 req ss = Returns b'"
      by (auto simp: obind_eq_Returns split: if_splits simp del: handleLeaderAndISR.simps)
    from handleLeaderAndISR_sameNode [OF h] Cons.IH [OF d] show ?thesis
      by (rule sameNode_trans)
  next
    case False
    with Cons.prems have "dispatchLeaderAndISR w b req ss = Returns b'"
      by (simp split: if_splits)
    then show ?thesis by (rule Cons.IH)
  qed
qed

text \<open>
  The last loop of \<^verbatim>\<open>createTopic\<close> panics exactly when the RPC to another broker of
  the lookup fails: the local call cannot make it panic, whatever its partitions report.
\<close>

lemma dispatchLeaderAndISR_Panics:
  "dispatchLeaderAndISR w b req ss = Panics \<longleftrightarrow>
     (\<exists>s \<in> set ss. bm_ID s \<noteq> config_ID b \<and> rpc_fails w (bm_ID s))"
proof (induction ss arbitrary: b)
  case Nil
  show ?case by simp
next
  case (Cons s ss)
  show ?case
  proof (cases "bm_ID s = config_ID b")
    case True
    from handleLeaderAndISR_returns [of w b req] obtain b1 parts where
      h: "handleLeaderAndISR w b req =
            Returns (b1, \<lparr>lr_ErrorCode = Code ErrNone, lr_Partitions = parts\<rparr>)"
      by blast
    from handleLeaderAndISR_sameNode [OF h] have "config_ID b1 = config_ID b"
      by (simp add: sameNode_def)
    with True h Cons.IH [of b1] show ?thesis
      by (simp del: handleLeaderAndISR.simps)
  next
    case False
    with Cons.IH [of b] show ?thesis
      by auto
  qed
qed

lemma createTopic_sameNode:
  assumes "createTopic w b topic n f = Returns (b', err)"
  shows "sameNode b b'"
proof (cases "fst (GetTopic w b topic)")
  case (Some t)
  with assms have "b' = b"
    by (simp add: Let_def split: prod.splits if_splits)
  then show ?thesis by simp
next
  case None
  with assms obtain ps where ps: "buildPartitions w b topic n f = Returns ps"
    by (cases "buildPartitions w b topic n f")
       (simp_all add: Let_def split: prod.splits if_splits del: buildPartitions.simps)
  let ?tt = "\<lparr>t_Topic = topic,
              t_Partitions =
                fold (\<lambda>partition m. m(p_ID partition \<mapsto> p_AR partition)) ps Map.empty\<rparr>"
  obtain b1 ok1 where r1: "raftApply w b (RegisterTopicRequest ?tt) = (b1, ok1)"
    by (cases "raftApply w b (RegisterTopicRequest ?tt)")
  obtain b2 ok2 where r2: "createPartitions w b1 ps = (b2, ok2)"
    by (cases "createPartitions w b1 ps")
  note s1 = raftApply_sameNode [OF r1]
  note s2 = sameNode_trans [OF s1 createPartitions_sameNode [OF r2]]
  from assms None ps r1 r2
  have "(\<not> ok1 \<and> b' = b1) \<or> (ok1 \<and> \<not> ok2 \<and> b' = b2) \<or>
        (\<exists>req. dispatchLeaderAndISR w b2 req (brokerLookup b2) = Returns b')"
    by (auto simp: Let_def obind_eq_Returns split: prod.splits if_splits
        simp del: raftApply.simps buildPartitions.simps createPartitions.simps
          dispatchLeaderAndISR.simps)
  with s1 s2 show ?thesis
    by (auto dest!: dispatchLeaderAndISR_sameNode intro: sameNode_trans)
qed

lemma createTopicRound_sameNode:
  "createTopicRound w b c req = Returns (b', code) \<Longrightarrow> sameNode b b'"
  by (auto simp: obind_eq_Returns split: if_splits dest: createTopic_sameNode
      simp del: createTopic.simps)

subsection \<open>Controller-only requests\<close>

lemma createTopicsLoop_not_controller:
  "createTopicsLoop w b False acc reqs =
     Returns (b, acc @ map (\<lambda>req. \<lparr>te_Topic = ct_Topic req,
                                    te_ErrorCode = Code ErrNotController\<rparr>) reqs)"
  by (induction reqs arbitrary: acc) simp_all

lemma deleteTopicsLoop_not_controller:
  "deleteTopicsLoop w b False acc topics =
     (b, acc @ map (\<lambda>topic. \<lparr>te_Topic = topic,
                              te_ErrorCode = Code ErrNotController\<rparr>) topics)"
  by (induction topics arbitrary: acc) simp_all

text \<open>
  C4. A broker whose Raft is not the leader answers every topic of a CreateTopics or
  DeleteTopics request with the code of \<^verbatim>\<open>ErrNotController\<close> and stays as it was: no
  command is proposed to Raft and no topic is created or deleted.
\<close>

theorem non_controller_rejects:
  assumes "\<not> isController b"
  shows "handleCreateTopic w b reqs =
           Returns (b, map (\<lambda>req. \<lparr>te_Topic = ct_Topic req,
                                   te_ErrorCode = Code ErrNotController\<rparr>) reqs) \<and>
         handleDeleteTopics w b topics =
           (b, map (\<lambda>topic. \<lparr>te_Topic = topic,
                              te_ErrorCode = Code ErrNotController\<rparr>) topics)"
  using assms
  by (simp add: createTopicsLoop_not_controller deleteTopicsLoop_not_controller
      del: createTopicsLoop.simps deleteTopicsLoop.simps)

theorem non_controller_rejects_witness:
  "\<not> isController broker1 \<and>
   handleCreateTopic calmWorld broker1
     [\<lparr>ct_Topic = ''u'', ct_NumPartitions = 1, ct_ReplicationFactor = 1\<rparr>,
      \<lparr>ct_Topic = ''v'', ct_NumPartitions = 4, ct_ReplicationFactor = 2\<rparr>] =
     Returns (broker1, [\<lparr>te_Topic = ''u'', te_ErrorCode = 41\<rparr>,
                        \<lparr>te_Topic = ''v'', te_ErrorCode = 41\<rparr>]) \<and>
   handleDeleteTopics calmWorld broker1 [''t''] =
     (broker1, [\<lparr>te_Topic = ''t'', te_ErrorCode = 41\<rparr>])"
proof -
  have nc: "\<not> isController broker1"
    by (simp add: broker1_def)
  from non_controller_rejects [OF nc, of calmWorld
      "[\<lparr>ct_Topic = ''u'', ct_NumPartitions = 1, ct_ReplicationFactor = 1\<rparr>,
        \<lparr>ct_Topic = ''v'', ct_NumPartitions = 4, ct_ReplicationFactor = 2\<rparr>]" "[''t'']"] nc
  show ?thesis
    by (simp del: handleCreateTopic.simps handleDeleteTopics.simps isController.simps)
qed

lemma int16_le: "int16 (int n) \<le> int n"
proof -
  have "(int n + 32768) mod 65536 \<le> int n + 32768"
    by (rule zmod_le_nonneg_dividend) simp
  then show ?thesis by simp
qed

lemma createTopicRound_invalid:
  "int (length (LANMembers b)) < ct_ReplicationFactor req \<Longrightarrow>
   createTopicRound w b True req =
     Returns (b, \<lparr>te_Topic = ct_Topic req, te_ErrorCode = Code ErrInvalidReplicationFactor\<rparr>)"
  using int16_le [of "length (LANMembers b)"]
  by (simp del: int16.simps createTopic.simps)

lemma createTopicsLoop_invalid:
  assumes "createTopicsLoop w b True acc reqs = Returns (b', codes)"
  shows "sameNode b b' \<and> length codes = length acc + length reqs \<and>
         take (length acc) codes = acc \<and>
         (\<forall>i<length reqs. int (length (LANMembers b)) < ct_ReplicationFactor (reqs ! i) \<longrightarrow>
            codes ! (length acc + i) =
              \<lparr>te_Topic = ct_Topic (reqs ! i),
               te_ErrorCode = Code ErrInvalidReplicationFactor\<rparr>)"
  using assms
proof (induction reqs arbitrary: b acc)
  case Nil
  then show ?case by simp
next
  case (Cons req reqs)
  from Cons.prems obtain b1 code where
    r: "createTopicRound w b True req = Returns (b1, code)"
    and l: "createTopicsLoop w b1 True (acc @ [code]) reqs = Returns (b', codes)"
    by (auto simp: obind_eq_Returns simp del: createTopicRound.simps)
  note s = createTopicRound_sameNode [OF r]
  then have m: "LANMembers b1 = LANMembers b"
    by (simp add: sameNode_def)
  note ih = Cons.IH [OF l, unfolded m]
  from ih have same: "sameNode b b'"
    using s by (blast intro: sameNode_trans)
  from ih have len: "length codes = length acc + length (req # reqs)"
    by simp
  from ih have tk: "take (Suc (length acc)) codes = acc @ [code]"
    by simp
  have "take (length acc) (take (Suc (length acc)) codes) = take (length acc) codes"
    by (simp add: min_def)
  with tk have tk': "take (length acc) codes = acc"
    by simp
  have "take (Suc (length acc)) codes ! length acc = codes ! length acc"
    by (rule nth_take) simp
  with tk have hd: "codes ! length acc = code"
    by simp
  have "codes ! (length acc + i) =
          \<lparr>te_Topic = ct_Topic ((req # reqs) ! i),
           te_ErrorCode = Code ErrInvalidReplicationFactor\<rparr>"
    if "i < length (req # reqs)"
      and "int (length (LANMembers b)) < ct_ReplicationFactor ((req # reqs) ! i)" for i
  proof (cases i)
    case 0
    with that r createTopicRound_invalid [of b req w] hd show ?thesis
      by (simp del: createTopicRound.simps)
  next
    case (Suc j)
    with that ih show ?thesis by simp
  qed
  with same len tk' show ?case by blast
qed

text \<open>
  C5. On the controller, a round of \<^verbatim>\<open>handleCreateTopic\<close> for a request whose
  replication factor exceeds the number of live members answers the code of
  \<^verbatim>\<open>ErrInvalidReplicationFactor\<close> and leaves the broker as it was: the topic is not
  created and nothing is proposed to Raft. A round that answers another code has a
  replication factor of at most the member count. In the response to a whole request,
  every topic whose replication factor exceeds the member count carries that code.
\<close>

theorem controller_rejects_replication_factor:
  assumes "isController b"
  shows "(int (length (LANMembers b)) < ct_ReplicationFactor req \<longrightarrow>
            createTopicRound w b (isController b) req =
              Returns (b, \<lparr>te_Topic = ct_Topic req,
                           te_ErrorCode = Code ErrInvalidReplicationFactor\<rparr>)) \<and>
         (\<forall>b' code.
            createTopicRound w b (isController b) req = Returns (b', code) \<and>
            te_ErrorCode code \<noteq> Code ErrInvalidReplicationFactor \<longrightarrow>
            ct_ReplicationFactor req \<le> int (length (LANMembers b))) \<and>
         (\<forall>b' codes i.
            handleCreateTopic w b reqs = Returns (b', codes) \<and> i < length reqs \<and>
            int (length (LANMembers b)) < ct_ReplicationFactor (reqs ! i) \<longrightarrow>
            codes ! i = \<lparr>te_Topic = ct_Topic (reqs ! i),
                         te_ErrorCode = Code ErrInvalidReplicationFactor\<rparr>)"
proof (intro conjI allI impI)
  assume "int (length (LANMembers b)) < ct_ReplicationFactor req"
  with assms show "createTopicRound w b (isController b) req =
      Returns (b, \<lparr>te_Topic = ct_Topic req, te_ErrorCode = Code ErrInvalidReplicationFactor\<rparr>)"
    using createTopicRound_invalid [of b req w] by (simp del: createTopicRound.simps)
next
  fix b' code
  assume a: "createTopicRound w b (isController b) req = Returns (b', code) \<and>
             te_ErrorCode code \<noteq> Code ErrInvalidReplicationFactor"
  show "ct_ReplicationFactor req \<le> int (length (LANMembers b))"
  proof (rule ccontr)
    assume "\<not> ct_ReplicationFactor req \<le> int (length (LANMembers b))"
    then have "int (length (LANMembers b)) < ct_ReplicationFactor req" by simp
    from createTopicRound_invalid [OF this, of w] a assms show False
      by (auto simp del: createTopicRound.simps)
  qed
next
  fix b' codes i
  assume a: "handleCreateTopic w b reqs = Returns (b', codes) \<and> i < length reqs \<and>
             int (length (LANMembers b)) < ct_ReplicationFactor (reqs ! i)"
  with assms have "createTopicsLoop w b True [] reqs = Returns (b', codes)"
    by (simp del: createTopicsLoop.simps)
  from createTopicsLoop_invalid [OF this] a
  show "codes ! i = \<lparr>te_Topic = ct_Topic (reqs ! i),
                     te_ErrorCode = Code ErrInvalidReplicationFactor\<rparr>"
    by simp
qed

theorem controller_rejects_replication_factor_witness:
  "isController controller1 \<and>
   int (length (LANMembers controller1)) = 2 \<and>
   createTopicRound calmWorld controller1 (isController controller1)
     \<lparr>ct_Topic = ''v'', ct_NumPartitions = 1, ct_ReplicationFactor = 3\<rparr> =
     Returns (controller1, \<lparr>te_Topic = ''v'', te_ErrorCode = 38\<rparr>) \<and>
   obind (handleCreateTopic calmWorld controller1
            [\<lparr>ct_Topic = ''u'', ct_NumPartitions = 2, ct_ReplicationFactor = 1\<rparr>,
             \<lparr>ct_Topic = ''v'', ct_NumPartitions = 1, ct_ReplicationFactor = 3\<rparr>])
     (\<lambda>(b', codes). Returns codes) =
   Returns [\<lparr>te_Topic = ''u'', te_ErrorCode = 0\<rparr>, \<lparr>te_Topic = ''v'', te_ErrorCode = 38\<rparr>]"
proof -
  let ?reqs = "[\<lparr>ct_Topic = ''u'', ct_NumPartitions = 2, ct_ReplicationFactor = 1\<rparr>,
             \<lparr>ct_Topic = ''v'', ct_NumPartitions = 1, ct_ReplicationFactor = 3\<rparr>]"
  have c: "isController controller1"
    by (simp add: controller1_def)
  have m: "int (length (LANMembers controller1)) = 2"
    by (simp add: controller1_def broker1_def)
  have r: "obind (handleCreateTopic calmWorld controller1 ?reqs) (\<lambda>(b', codes). Returns codes) =
             Returns [\<lparr>te_Topic = ''u'', te_ErrorCode = 0\<rparr>, \<lparr>te_Topic = ''v'', te_ErrorCode = 38\<rparr>]"
    by (simp add: buildPartitionsLoop.simps collectReplicas.simps
        calmWorld_def broker1_def controller1_def AddReplica_def lookup_Replica_def Let_def)
  from controller_rejects_replication_factor [OF c, of
      "\<lparr>ct_Topic = ''v'', ct_NumPartitions = 1, ct_ReplicationFactor = 3\<rparr>" calmWorld ?reqs] c m r
  show ?thesis
    by (simp del: createTopicRound.simps isController.simps LANMembers.simps handleCreateTopic.simps)
qed


subsection \<open>Partition assignment\<close>

text \<open>
  What \<^verbatim>\<open>buildPartitions\<close> returns when it returns: partition \<open>i\<close> is led by the
  member at position \<open>i mod N\<close>, its ISR is its AR, the AR starts with the leader, and
  every follower is a position of the member list other than the leader's broker id.
\<close>

lemma collectReplicas_Some:
  assumes "collectReplicas memCount leader rf replica replicas = Some out"
  shows "walked memCount leader rf replica replicas out"
proof (rule collectReplicas.raw_induct [where P = walked, OF _ assms])
  fix f memCount leader rf replica replicas out
  assume IH: "\<And>memCount leader rf replica replicas out.
                f memCount leader rf replica replicas = Some out \<Longrightarrow>
                walked memCount leader rf replica replicas out"
    and body: "(if int (length replicas) < rf then
                  (let replicas' = (if replica \<noteq> leader then replicas @ [replica] else replicas);
                       replica' = (if replica + 1 = memCount then -1 else replica)
                   in f memCount leader rf (replica' + 1) replicas')
                else Some replicas) = Some out"
  show "walked memCount leader rf replica replicas out"
  proof (cases "int (length replicas) < rf")
    case False
    with body show ?thesis by (simp add: walked_def)
  next
    case True
    let ?replicas' = "if replica \<noteq> leader then replicas @ [replica] else replicas"
    let ?next = "(if replica + 1 = memCount then - 1 else replica) + 1"
    from True body have "f memCount leader rf ?next ?replicas' = Some out"
      by (simp add: Let_def)
    from IH [OF this] obtain ext where
      out: "out = ?replicas' @ ext"
      and pos: "0 \<le> ?next \<and> ?next < memCount \<longrightarrow>
                list_all (\<lambda>x. 0 \<le> x \<and> x < memCount \<and> x \<noteq> leader) ext"
      and len: "int (length out) = max (int (length ?replicas')) rf"
      unfolding walked_def by blast
    let ?ext = "(if replica \<noteq> leader then [replica] else []) @ ext"
    have "out = replicas @ ?ext"
      using out by simp
    moreover have "list_all (\<lambda>x. 0 \<le> x \<and> x < memCount \<and> x \<noteq> leader) ?ext"
      if "0 \<le> replica \<and> replica < memCount"
      using that pos by auto
    moreover have "int (length out) = max (int (length replicas)) rf"
      using len True by (auto simp: max_def)
    ultimately show ?thesis unfolding walked_def by blast
  qed
qed

lemma go_rem_nonneg:
  "0 \<le> i \<Longrightarrow> mems \<noteq> [] \<Longrightarrow>
   go_rem i (int (length mems)) = Returns (int (nat i mod length mems))"
  by (cases "i = 0") (simp_all add: zmod_int)

lemma buildPartitionsLoop_assigns:
  assumes "buildPartitionsLoop w mems topic n rf i acc = Returns ps"
    and "0 \<le> i"
    and "list_all (assignedByCode mems topic rf) acc"
  shows "list_all (assignedByCode mems topic rf) ps \<and>
         map p_ID ps = map p_ID acc @ [i..n - 1]"
  using assms
proof (induction w mems topic n rf i acc rule: buildPartitionsLoop.induct)
  case (1 w mems topic n rf i acc)
  show ?case
  proof (cases "i < n")
    case False
    with "1.prems" show ?thesis
      by (simp add: buildPartitionsLoop.simps)
  next
    case True
    note run = "1.prems"(1) [unfolded buildPartitionsLoop.simps [of w mems topic n rf i acc]]
    from True run have ne: "mems \<noteq> []"
      by (auto simp: Let_def)
    let ?pos = "int (nat i mod length mems)"
    let ?leader = "bm_ID (mems ! nat ?pos)"
    have rem: "go_rem i (int (length mems)) = Returns ?pos"
      using "1.prems"(2) ne by (rule go_rem_nonneg)
    have "nat i mod length mems < length mems"
      using ne by simp
    then have inr: "\<not> (?pos < 0 \<or> int (length mems) \<le> ?pos)"
      by simp
    obtain start where start: "Int31n w i (int (length mems)) = Returns start"
      and range: "0 \<le> start \<and> start < int (length mems)"
      using ne by simp
    from True run rem inr start obtain replicas where
      col: "collectReplicas (int (length mems)) ?leader rf start [?leader] = Some replicas"
      by (cases "collectReplicas (int (length mems)) ?leader rf start [?leader]")
         (simp_all add: Let_def del: go_rem.simps Int31n.simps)
    let ?p = "\<lparr>p_Topic = topic, p_ID = i, p_Partition = i, p_Leader = ?leader,
               p_AR = replicas, p_ISR = replicas, p_ControllerEpoch = 0, p_LeaderEpoch = 0\<rparr>"
    from True run rem inr start col
    have rest: "buildPartitionsLoop w mems topic n rf (i + 1) (acc @ [?p]) = Returns ps"
      by (simp add: Let_def del: go_rem.simps Int31n.simps)
    from collectReplicas_Some [OF col, unfolded walked_def] range obtain ext where
      ext: "replicas = ?leader # ext"
      and walk: "list_all (\<lambda>x. 0 \<le> x \<and> x < int (length mems) \<and> x \<noteq> ?leader) ext"
      and len: "int (length replicas) = max 1 rf"
      by auto
    have p: "assignedByCode mems topic rf ?p"
      using ext walk len "1.prems"(2) by (simp add: assignedByCode_def)
    have "list_all (assignedByCode mems topic rf) ps \<and>
          map p_ID ps = map p_ID (acc @ [?p]) @ [i + 1..n - 1]"
      using True rem inr start col rest "1.prems"(2,3) p
      by (intro "1.IH" [of "int (length mems)" ?pos ?leader start replicas]) simp_all
    moreover have "[i..n - 1] = i # [i + 1..n - 1]"
      using True by (simp add: upto_rec1)
    ultimately show ?thesis by simp
  qed
qed

lemma buildPartitions_assigns:
  assumes "buildPartitions w b topic n rf = Returns ps"
  shows "map p_ID ps = [0..n - 1] \<and> list_all (assignedByCode (brokerLookup b) topic rf) ps"
  using buildPartitionsLoop_assigns [of w "brokerLookup b" topic n rf 0 "[]" ps] assms
  by simp

text \<open>
  C1. The followers \<^verbatim>\<open>buildPartitions\<close> appends are the values of its loop counter, that
  is positions of the member list, and the counter is compared with the leader's broker
  id. In a cluster of the brokers 1 and 2, for either random start, partition 0 of a topic
  with replication factor 2 is assigned the replicas 1 and 0: broker 2 is left out and 0
  is the id of no broker.
\<close>

theorem buildPartitions_appends_positions:
  "buildPartitions calmWorld broker1 ''u'' 1 2 =
     Returns [\<lparr>p_Topic = ''u'', p_ID = 0, p_Partition = 0, p_Leader = 1, p_AR = [1, 0],
               p_ISR = [1, 0], p_ControllerEpoch = 0, p_LeaderEpoch = 0\<rparr>] \<and>
   buildPartitions (calmWorld\<lparr>rand_draw := (\<lambda>_. 1)\<rparr>) broker1 ''u'' 1 2 =
     Returns [\<lparr>p_Topic = ''u'', p_ID = 0, p_Partition = 0, p_Leader = 1, p_AR = [1, 0],
               p_ISR = [1, 0], p_ControllerEpoch = 0, p_LeaderEpoch = 0\<rparr>] \<and>
   map bm_ID (brokerLookup broker1) = [1, 2] \<and>
   BrokerByID (brokerLookup broker1) 0 = None"
  by (simp add: buildPartitionsLoop.simps collectReplicas.simps calmWorld_def broker1_def)

subsection \<open>Panics while creating a topic\<close>

text \<open>When Raft does not commit the topic, \<^verbatim>\<open>createTopic\<close> returns \<^verbatim>\<open>ErrUnknown\<close>.\<close>

lemma createTopic_raft_failure:
  assumes "fst (GetTopic w b topic) = None"
    and "buildPartitions w b topic n f = Returns ps"
    and "\<not> raft_commits w (RegisterTopicRequest
           \<lparr>t_Topic = topic,
            t_Partitions =
              fold (\<lambda>partition m. m(p_ID partition \<mapsto> p_AR partition)) ps Map.empty\<rparr>)"
  shows "createTopic w b topic n f =
           Returns (b\<lparr>raft_proposed := raft_proposed b @
                      [RegisterTopicRequest
                         \<lparr>t_Topic = topic,
                          t_Partitions =
                            fold (\<lambda>partition m. m(p_ID partition \<mapsto> p_AR partition)) ps
                              Map.empty\<rparr>]\<rparr>, ErrUnknown)"
  using assms
  by (simp add: Let_def split: prod.splits if_splits del: buildPartitions.simps)

text \<open>
  C7. A failed LeaderAndISR dispatch makes \<^verbatim>\<open>createTopic\<close> panic, and with it
  \<^verbatim>\<open>handleCreateTopic\<close>: the controller, broker 1, has registered the topic and handled
  the request itself when the RPC to broker 2 fails, and no response is returned.
\<close>

theorem createTopic_panics_when_peer_fails:
  "isController controller1 \<and>
   createTopic peerDownWorld controller1 ''u'' 1 1 = Panics \<and>
   handleCreateTopic peerDownWorld controller1
     [\<lparr>ct_Topic = ''u'', ct_NumPartitions = 1, ct_ReplicationFactor = 1\<rparr>] = Panics"
proof -
  have p: "createTopic peerDownWorld controller1 ''u'' 1 1 = Panics"
    by (simp add: buildPartitionsLoop.simps collectReplicas.simps peerDownWorld_def
        calmWorld_def broker1_def controller1_def AddReplica_def lookup_Replica_def Let_def)
  then show ?thesis
    by (simp del: createTopic.simps add: controller1_def broker1_def)
qed

subsection \<open>Produce\<close>

text \<open>
  C2. \<^verbatim>\<open>handleProduce\<close> does not look at the leader of the partition. Broker 1 holds a
  replica of partition 0 of topic \<open>t\<close> that broker 2 leads; a produce request for it is
  appended to the local log and answered with the code of \<^verbatim>\<open>ErrNone\<close> and base offset
  3.
\<close>

theorem handleProduce_appends_on_follower:
  "handleProduce calmWorld broker1
     [\<lparr>td_Topic = ''t'', td_Data = [\<lparr>pd_Partition = 0, pd_RecordSet = [''x'']\<rparr>]\<rparr>] =
     Returns
       (storeReplica broker1 (''t'', 0)
          (replicaT0\<lparr>r_Log := Some \<lparr>log_oldest = 0,
                                     log_records = [''a'', ''b'', ''c'', ''x'']\<rparr>\<rparr>),
        [\<lparr>prs_Topic = ''t'',
          prs_PartitionResponses =
            [\<lparr>ppr_Partition = 0, ppr_ErrorCode = 0, ppr_BaseOffset = 3,
              ppr_Timestamp = 1500000000\<rparr>]\<rparr>]) \<and>
   config_ID broker1 = 1 \<and>
   p_Leader (r_Partition replicaT0) = 2"
  by (simp add: calmWorld_def broker1_def replicaT0_def partitionT0_def lookup_Replica_def
      log_append_def NewestOffset_def Let_def)

subsection \<open>The offsets of a replica\<close>

text \<open>
  When every replica the entries of the request find has an open log,
  \<^verbatim>\<open>handleOffsets\<close> returns, and the response of a topic lists, for each entry whose
  replica exists, one partition response with exactly one offset: the log's
  \<open>OldestOffset\<close> when the timestamp of the entry is \<open>-2\<close>, its \<open>NewestOffset\<close> for any
  other timestamp.
\<close>

lemma handleOffsets_sentinel:
  assumes "list_all (\<lambda>t. logsOpen b (ot_Topic t) (ot_Partitions t)) topics"
  shows "handleOffsets b topics = Returns (map (offsetsAnswer b) topics) \<and>
         (\<forall>t \<in> set topics. \<forall>p \<in> set (ot_Partitions t). \<forall>l.
            replicaLog b (ot_Topic t) (op_Partition p) = Some l \<longrightarrow>
            \<lparr>pr_Partition = op_Partition p, pr_ErrorCode = Code ErrNone,
             pr_Offsets = [if op_Timestamp p = -2 then OldestOffset l else NewestOffset l]\<rparr>
              \<in> set (or_PartitionResponses (offsetsAnswer b t))) \<and>
         (\<forall>t \<in> set topics. \<forall>r \<in> set (or_PartitionResponses (offsetsAnswer b t)).
            length (pr_Offsets r) = 1)"
proof (intro conjI ballI allI impI)
  from assms show "handleOffsets b topics = Returns (map (offsetsAnswer b) topics)"
    by (simp add: handleOffsets_def offsetsTopics_open)
next
  fix t :: OffsetsTopic and p :: OffsetsPartition and l
  assume "p \<in> set (ot_Partitions t)"
    and "replicaLog b (ot_Topic t) (op_Partition p) = Some l"
  then have "offsetAnswer l p \<in> set (offsetAnswers b (ot_Topic t) (ot_Partitions t))"
    by (auto simp: offsetAnswers_member)
  then show "\<lparr>pr_Partition = op_Partition p, pr_ErrorCode = Code ErrNone,
             pr_Offsets = [if op_Timestamp p = -2 then OldestOffset l else NewestOffset l]\<rparr>
              \<in> set (or_PartitionResponses (offsetsAnswer b t))"
    by (simp add: offsetsAnswer_def offsetAnswer_def sentinelOffset_def)
next
  fix t :: OffsetsTopic and r
  assume "r \<in> set (or_PartitionResponses (offsetsAnswer b t))"
  then show "length (pr_Offsets r) = 1"
    by (auto simp: offsetsAnswer_def offsetAnswers_member offsetAnswer_def)
qed

lemma handleOffsets_sentinel_example:
  "handleOffsets broker1
     [\<lparr>ot_Topic = ''t'',
       ot_Partitions = [\<lparr>op_Partition = 0, op_Timestamp = -2\<rparr>,
                        \<lparr>op_Partition = 0, op_Timestamp = 1500000000\<rparr>]\<rparr>] =
     Returns [\<lparr>or_Topic = ''t'',
               or_PartitionResponses =
                 [\<lparr>pr_Partition = 0, pr_ErrorCode = 0, pr_Offsets = [0]\<rparr>,
                  \<lparr>pr_Partition = 0, pr_ErrorCode = 0, pr_Offsets = [3]\<rparr>]\<rparr>]"
proof -
  let ?req = "[\<lparr>ot_Topic = ''t'',
       ot_Partitions = [\<lparr>op_Partition = 0, op_Timestamp = -2\<rparr>,
                        \<lparr>op_Partition = 0, op_Timestamp = 1500000000\<rparr>]\<rparr>]"
  have "list_all (\<lambda>t. logsOpen broker1 (ot_Topic t) (ot_Partitions t)) ?req"
    by (simp add: logsOpen_def lookup_Replica_def broker1_def replicaT0_def)
  from handleOffsets_sentinel [OF this] show ?thesis
    by (simp add: offsetsAnswer_def offsetAnswers_def offsetAnswer_def replicaLog_def
        lookup_Replica_def sentinelOffset_def OldestOffset_def NewestOffset_def broker1_def
        replicaT0_def)
qed

text \<open>
  C6. A replica can exist with no log, and then \<^verbatim>\<open>handleOffsets\<close> returns no offset
  list for it. \<^verbatim>\<open>handleLeaderAndISR\<close> registers the replica of a partition state before
  \<^verbatim>\<open>startReplica\<close> runs; on a broker that is not among the replicas of the partition
  \<^verbatim>\<open>startReplica\<close> fails with \<^verbatim>\<open>ErrReplicaNotAvailable\<close> and the replica stays
  registered with a nil log. An Offsets request for that partition then finds the replica
  and panics.
\<close>

theorem handleOffsets_panics_on_nil_log:
  "handleLeaderAndISR calmWorld broker1
     \<lparr>lq_ControllerID = 2, lq_PartitionStates = [stateT1]\<rparr> =
     Returns (broker1WithT1,
       \<lparr>lr_ErrorCode = 0,
        lr_Partitions = [\<lparr>lp_ErrorCode = 9, lp_Partition = 1, lp_Topic = ''t''\<rparr>]\<rparr>) \<and>
   lookup_Replica broker1WithT1 ''t'' 1 = Some unstartedT1 \<and>
   handleOffsets broker1WithT1
     [\<lparr>ot_Topic = ''t'', ot_Partitions = [\<lparr>op_Partition = 1, op_Timestamp = -2\<rparr>]\<rparr>] =
     Panics"
  by (simp add: broker1WithT1_def unstartedT1_def stateT1_def partitionT1_def AddReplica_def
      lookup_Replica_def handleOffsets_def calmWorld_def broker1_def Let_def)

subsection \<open>Correlation ids\<close>

lemma Run_correlation:
  "map (\<lambda>r. res_CorrelationID (rs_Response r)) (fst (Run w hf hm b resp requestc)) =
     map (\<lambda>q. h_CorrelationID (rq_Header q))
       (take (length (fst (Run w hf hm b resp requestc))) requestc)"
proof (induction requestc arbitrary: b resp)
  case Nil
  show ?case by simp
next
  case (Cons request requestc)
  show ?case
  proof (cases "dispatch w hf hm b resp (rq_Request request)")
    case (Returns x)
    obtain b' resp' where x: "x = (b', resp')" by (cases x)
    from Returns x Cons.IH [of b' resp'] show ?thesis
      by (simp add: case_prod_unfold Let_def del: dispatch.simps)
  next
    case Panics
    then show ?thesis by (simp del: dispatch.simps)
  next
    case Hangs
    then show ?thesis by (simp del: dispatch.simps)
  qed
qed

lemma Run_header:
  "map rs_Header (fst (Run w hf hm b resp requestc)) =
     map rq_Header (take (length (fst (Run w hf hm b resp requestc))) requestc)"
proof (induction requestc arbitrary: b resp)
  case Nil
  show ?case by simp
next
  case (Cons request requestc)
  show ?case
  proof (cases "dispatch w hf hm b resp (rq_Request request)")
    case (Returns x)
    obtain b' resp' where x: "x = (b', resp')" by (cases x)
    from Returns x Cons.IH [of b' resp'] show ?thesis
      by (simp add: case_prod_unfold Let_def del: dispatch.simps)
  next
    case Panics
    then show ?thesis by (simp del: dispatch.simps)
  next
    case Hangs
    then show ?thesis by (simp del: dispatch.simps)
  qed
qed

lemma Run_complete:
  "snd (Run w hf hm b resp requestc) = Returns b' \<Longrightarrow>
   length (fst (Run w hf hm b resp requestc)) = length requestc"
proof (induction requestc arbitrary: b resp)
  case Nil
  show ?case by simp
next
  case (Cons request requestc)
  show ?case
  proof (cases "dispatch w hf hm b resp (rq_Request request)")
    case (Returns x)
    obtain b1 resp' where x: "x = (b1, resp')" by (cases x)
    from Returns x Cons.prems Cons.IH [of b1 resp'] show ?thesis
      by (simp add: case_prod_unfold Let_def del: dispatch.simps)
  next
    case Panics
    with Cons.prems show ?thesis by (simp del: dispatch.simps)
  next
    case Hangs
    with Cons.prems show ?thesis by (simp del: dispatch.simps)
  qed
qed

text \<open>
  C8. The responses \<^verbatim>\<open>Run\<close> sends answer the requests it took, in order: each carries
  the header of its request and, as correlation id, the correlation id of that header.
  When no handler panics or hangs, every request is answered.
\<close>

theorem Run_echoes_correlation_id:
  "map (\<lambda>r. res_CorrelationID (rs_Response r)) (fst (Run w hf hm b resp requestc)) =
     map (\<lambda>q. h_CorrelationID (rq_Header q))
       (take (length (fst (Run w hf hm b resp requestc))) requestc) \<and>
   map rs_Header (fst (Run w hf hm b resp requestc)) =
     map rq_Header (take (length (fst (Run w hf hm b resp requestc))) requestc) \<and>
   ((\<exists>b'. snd (Run w hf hm b resp requestc) = Returns b') \<longrightarrow>
      length (fst (Run w hf hm b resp requestc)) = length requestc)"
proof (intro conjI impI)
  show "map (\<lambda>r. res_CorrelationID (rs_Response r)) (fst (Run w hf hm b resp requestc)) =
          map (\<lambda>q. h_CorrelationID (rq_Header q))
            (take (length (fst (Run w hf hm b resp requestc))) requestc)"
    by (rule Run_correlation)
  show "map rs_Header (fst (Run w hf hm b resp requestc)) =
          map rq_Header (take (length (fst (Run w hf hm b resp requestc))) requestc)"
    by (rule Run_header)
  assume "\<exists>b'. snd (Run w hf hm b resp requestc) = Returns b'"
  then show "length (fst (Run w hf hm b resp requestc)) = length requestc"
    by (auto dest: Run_complete)
qed

theorem Run_echoes_correlation_id_witness:
  "snd (Run calmWorld noHandler noHandler broker1 None threeRequests) = Returns broker1 \<and>
   map (\<lambda>r. res_CorrelationID (rs_Response r))
     (fst (Run calmWorld noHandler noHandler broker1 None threeRequests)) = [7, 41, 8] \<and>
   length (fst (Run calmWorld noHandler noHandler broker1 None threeRequests)) = 3"
proof -
  have e: "snd (Run calmWorld noHandler noHandler broker1 None threeRequests) = Returns broker1"
    by (simp add: threeRequests_def handleOffsets_def lookup_Replica_def broker1_def
        replicaT0_def Let_def)
  have l: "map (\<lambda>q. h_CorrelationID (rq_Header q)) threeRequests = [7, 41, 8]"
    by (simp add: threeRequests_def)
  from Run_echoes_correlation_id [of calmWorld noHandler noHandler broker1 None threeRequests]
    e l
  show ?thesis
    by (simp add: threeRequests_def)
qed

end
